theory Spec2Isabelle
  imports Complex_Main "HOL-Library.Char_ord"
    "HOL-Library.List_Lexorder" "HOL-Library.Product_Lexorder" "HOL-Library.Word"
begin

section \<open>Portfolio visualisation: the data pipeline of \<^verbatim>\<open>src/app/main.py\<close>\<close>

text \<open>
  The program reads a ledger of stock transactions (\<^verbatim>\<open>load_transactions\<close>), turns it
  into a table of transaction records with running sums (\<^verbatim>\<open>format_transactions\<close>) and
  joins that table with daily close prices (\<^verbatim>\<open>fetch_hist_data\<close>). The two functions
  are embedded below, statement by statement. A pandas DataFrame is a list of rows
  (a record per row, in row order); a column assignment maps over the rows.

  What the embedding abstracts:
  \<^item> A cell of a numeric column is a \<open>fval\<close>: an exact real, one of the two infinities,
    or NaN. The special values follow IEEE 754 as numpy computes them (NaN propagates,
    a nonzero number divided by zero is infinite, zero divided by zero is NaN). The
    rounding of floats, also when an integer column becomes a float column, the
    overflow of finite floats and the sign of zero are not modelled.
  \<^item> A column of \<^verbatim>\<open>format_transactions\<close> has a dtype: \<^verbatim>\<open>int64\<close> when every cell
    is an integer, \<^verbatim>\<open>float64\<close> when one cell is a float or is missing, and
    \<^verbatim>\<open>object\<close> when every cell is missing. Arithmetic on an \<^verbatim>\<open>int64\<close> column
    wraps around, and the running sum of an \<^verbatim>\<open>object\<close> column raises a TypeError.
    An integer of the ledger is a 64-bit signed integer.
  \<^item> A calendar date is its day number (days since 1970-01-01), so that
    \<^verbatim>\<open>date + datetime.timedelta(1)\<close> is \<open>d + 1\<close>.
  \<^item> The two calls of \<^verbatim>\<open>yfinance.download\<close> and the clock
    (\<^verbatim>\<open>datetime.datetime.today()\<close>) are parameters of the functions.
\<close>

subsection \<open>Float cells\<close>

datatype fval = Fin real | PInf | NInf | NaN

type_synonym ticker = string
type_synonym date = int

definition isna :: "fval \<Rightarrow> bool" where
  "isna x = (x = NaN)"

definition is_inf :: "fval \<Rightarrow> bool" where
  "is_inf x = (x = PInf \<or> x = NInf)"

fun fpos :: "fval \<Rightarrow> bool" where
  "fpos (Fin a) = (0 < a)"
| "fpos PInf = True"
| "fpos NInf = False"
| "fpos NaN = False"

fun fzero :: "fval \<Rightarrow> bool" where
  "fzero (Fin a) = (a = 0)"
| "fzero PInf = False"
| "fzero NInf = False"
| "fzero NaN = False"

fun fneg :: "fval \<Rightarrow> fval" where
  "fneg (Fin a) = Fin (- a)"
| "fneg PInf = NInf"
| "fneg NInf = PInf"
| "fneg NaN = NaN"

text \<open>Addition: the sum of opposite infinities is NaN.\<close>

fun fadd :: "fval \<Rightarrow> fval \<Rightarrow> fval" where
  "fadd (Fin a) (Fin b) = Fin (a + b)"
| "fadd NaN y = NaN"
| "fadd x NaN = NaN"
| "fadd PInf NInf = NaN"
| "fadd NInf PInf = NaN"
| "fadd PInf y = PInf"
| "fadd NInf y = NInf"
| "fadd (Fin a) y = y"

definition fsub :: "fval \<Rightarrow> fval \<Rightarrow> fval" where
  "fsub x y = fadd x (fneg y)"

text \<open>Multiplication: zero times an infinity is NaN.\<close>

fun fmul :: "fval \<Rightarrow> fval \<Rightarrow> fval" where
  "fmul (Fin a) (Fin b) = Fin (a * b)"
| "fmul NaN y = NaN"
| "fmul x NaN = NaN"
| "fmul x y = (if fzero x \<or> fzero y then NaN else if fpos x = fpos y then PInf else NInf)"

text \<open>
  Division as numpy divides float arrays: no exception on a zero divisor. A nonzero
  number over zero is an infinity, zero over zero and infinity over infinity are NaN.
\<close>

fun fdiv :: "fval \<Rightarrow> fval \<Rightarrow> fval" where
  "fdiv (Fin a) (Fin b) =
     (if b = 0 then (if a = 0 then NaN else if 0 < a then PInf else NInf) else Fin (a / b))"
| "fdiv NaN y = NaN"
| "fdiv x NaN = NaN"
| "fdiv (Fin a) y = Fin 0"
| "fdiv x (Fin b) = (if fpos x = (0 \<le> b) then PInf else NInf)"
| "fdiv x y = NaN"


subsection \<open>Grouped column operations of pandas\<close>

text \<open>
  The dtype of a numeric column, and the wrap-around of \<^verbatim>\<open>int64\<close> arithmetic: the
  exact result is read as a 64-bit signed integer.
\<close>

datatype dtype = int64 | float64

definition wrap64 :: "int \<Rightarrow> int" where
  "wrap64 n = sint (word_of_int n :: 64 word)"

fun wrap_cell :: "fval \<Rightarrow> fval" where
  "wrap_cell (Fin a) = Fin (of_int (wrap64 \<lfloor>a\<rfloor>))"
| "wrap_cell PInf = PInf"
| "wrap_cell NInf = NInf"
| "wrap_cell NaN = NaN"

text \<open>The product of two columns, cell by cell.\<close>

definition col_mul :: "dtype \<Rightarrow> fval \<Rightarrow> fval \<Rightarrow> fval" where
  "col_mul dt x y = (case dt of int64 \<Rightarrow> wrap_cell (fmul x y) | float64 \<Rightarrow> fmul x y)"

text \<open>
  \<^verbatim>\<open>df.groupby(key)[col].cumsum()\<close>: the running sum of the column within each group,
  in row order. A NaN cell stays NaN and is skipped by the running sum
  (\<^verbatim>\<open>skipna=True\<close>). The accumulator holds the running sum of every group. On an
  \<^verbatim>\<open>int64\<close> column the sum wraps around. On a \<^verbatim>\<open>float64\<close> column pandas sums with
  a compensation term (Kahan), which is NaN once an infinite sum has been reached: the
  row of the infinite sum shows it, and the later rows of the group are NaN.
\<close>

definition cum_add :: "dtype \<Rightarrow> fval \<Rightarrow> fval \<Rightarrow> fval" where
  "cum_add dt a x = (case dt of int64 \<Rightarrow> wrap_cell (fadd a x) | float64 \<Rightarrow> fadd a x)"

definition carry :: "dtype \<Rightarrow> fval \<Rightarrow> fval" where
  "carry dt s = (case dt of int64 \<Rightarrow> s | float64 \<Rightarrow> if is_inf s then NaN else s)"

fun groupby_cumsum_from ::
  "dtype \<Rightarrow> ('k \<Rightarrow> fval) \<Rightarrow> ('k \<times> fval) list \<Rightarrow> fval list" where
  "groupby_cumsum_from dt acc [] = []"
| "groupby_cumsum_from dt acc ((k, x) # rest) =
     (if isna x then NaN # groupby_cumsum_from dt acc rest
      else cum_add dt (acc k) x #
           groupby_cumsum_from dt (acc(k := carry dt (cum_add dt (acc k) x))) rest)"

definition groupby_cumsum :: "dtype \<Rightarrow> ('k \<times> fval) list \<Rightarrow> fval list" where
  "groupby_cumsum dt col = groupby_cumsum_from dt (\<lambda>k. Fin 0) col"

text \<open>
  \<^verbatim>\<open>df.groupby(key)[col].ffill()\<close>: a NaN cell takes the last value of its group
  that is not NaN, and stays NaN when the group has none before it.
\<close>

fun groupby_ffill_from :: "('k \<Rightarrow> fval) \<Rightarrow> ('k \<times> fval) list \<Rightarrow> fval list" where
  "groupby_ffill_from prev [] = []"
| "groupby_ffill_from prev ((k, x) # rest) =
     (if isna x then prev k # groupby_ffill_from prev rest
      else x # groupby_ffill_from (prev(k := x)) rest)"

definition groupby_ffill :: "('k \<times> fval) list \<Rightarrow> fval list" where
  "groupby_ffill col = groupby_ffill_from (\<lambda>k. NaN) col"

text \<open>\<^verbatim>\<open>col.fillna(v)\<close> and \<^verbatim>\<open>col.where(cond, other)\<close> on one cell.\<close>

definition fillna :: "fval \<Rightarrow> fval \<Rightarrow> fval" where
  "fillna v x = (if isna x then v else x)"

definition where_cell :: "bool \<Rightarrow> fval \<Rightarrow> fval \<Rightarrow> fval" where
  "where_cell cond other x = (if cond then x else other)"

text \<open>\<^verbatim>\<open>col.unique()\<close>: the distinct values in order of first appearance.\<close>

fun unique :: "'a list \<Rightarrow> 'a list" where
  "unique [] = []"
| "unique (x # xs) = x # unique (filter (\<lambda>y. y \<noteq> x) xs)"

subsection \<open>The tables\<close>

text \<open>
  A row of the transaction table \<^verbatim>\<open>df\<close> that \<^verbatim>\<open>format_transactions\<close> returns
  (the column \<^verbatim>\<open>buy_price_yahoo\<close> is dropped before the return).
\<close>

record txrow =
  tx_date :: date
  tx_ticker :: ticker
  tx_quantity_flow :: fval
  tx_price :: fval
  tx_quantity_stock :: fval
  tx_spending_flow :: fval
  tx_spending_stock :: fval
  tx_invested_cash_flow :: fval
  tx_invested_cash_stock :: fval

text \<open>
  A row of the price table: what \<^verbatim>\<open>yf.download(tickers, start=start_date, group_by="ticker")\<close>
  gives once stacked and reduced to the columns \<^verbatim>\<open>Date\<close>, \<^verbatim>\<open>Ticker\<close>, \<^verbatim>\<open>Close\<close>
  (lines 66 to 74).
\<close>

record hist_row =
  hist_date :: date
  hist_ticker :: ticker
  hist_close :: fval

text \<open>A row of \<^verbatim>\<open>full_df\<close>: the transaction table expanded on the calendar grid.\<close>

record full_row =
  full_ticker :: ticker
  full_date :: date
  full_quantity_stock :: fval
  full_spending_stock :: fval
  full_invested_cash_stock :: fval

text \<open>A row of the table \<^verbatim>\<open>fetch_hist_data\<close> returns, indexed by ticker and date.\<close>

record obs =
  ticker :: ticker
  date :: date
  close :: fval
  quantity_stock :: fval
  spending_stock :: fval
  invested_cash_stock :: fval
  valuation :: fval
  balance :: fval
  profit_rate :: fval

datatype error =
  KeyError string
| ValueError
| TypeError

subsection \<open>\<^verbatim>\<open>fetch_hist_data\<close>\<close>

text \<open>\<^verbatim>\<open>pd.Timestamp("2020-01-01")\<close>: day 18262 after 1970-01-01.\<close>

definition start_date :: date where
  "start_date = 18262"

text \<open>\<^verbatim>\<open>pd.date_range(start=start_date, end=end_date, freq="D")\<close>, line 82.\<close>

definition all_dates :: "date \<Rightarrow> date list" where
  "all_dates today = [start_date..today]"

text \<open>\<^verbatim>\<open>pd.MultiIndex.from_product([df["ticker"].unique(), all_dates])\<close>, line 85.\<close>

definition multi_index :: "txrow list \<Rightarrow> date \<Rightarrow> (ticker \<times> date) list" where
  "multi_index df today = List.product (unique (map tx_ticker df)) (all_dates today)"

text \<open>
  Lines 88 and 89: the three stock columns of \<^verbatim>\<open>df\<close>, indexed by ticker and date and
  reindexed on the grid. A grid pair with no row in \<^verbatim>\<open>df\<close> gets NaN cells; a row of
  \<^verbatim>\<open>df\<close> whose pair is not on the grid is dropped.
\<close>

definition reindex :: "txrow list \<Rightarrow> (ticker \<times> date) list \<Rightarrow> full_row list" where
  "reindex df idx =
     map (\<lambda>(t, d).
       case find (\<lambda>r. tx_ticker r = t \<and> tx_date r = d) df of
         None \<Rightarrow> \<lparr>full_ticker = t, full_date = d, full_quantity_stock = NaN,
                   full_spending_stock = NaN, full_invested_cash_stock = NaN\<rparr>
       | Some r \<Rightarrow> \<lparr>full_ticker = t, full_date = d,
                    full_quantity_stock = tx_quantity_stock r,
                    full_spending_stock = tx_spending_stock r,
                    full_invested_cash_stock = tx_invested_cash_stock r\<rparr>) idx"

text \<open>Lines 92 to 97: the forward fills, and the zero fill of \<^verbatim>\<open>quantity_stock\<close> only.\<close>

definition full_df :: "txrow list \<Rightarrow> date \<Rightarrow> full_row list" where
  "full_df df today =
     (let f0 = reindex df (multi_index df today);
          f1 = map2 (\<lambda>r v. r\<lparr>full_quantity_stock := v\<rparr>) f0
                 (groupby_ffill (map (\<lambda>r. (full_ticker r, full_quantity_stock r)) f0));
          f2 = map (\<lambda>r. r\<lparr>full_quantity_stock := fillna (Fin 0) (full_quantity_stock r)\<rparr>) f1;
          f3 = map2 (\<lambda>r v. r\<lparr>full_spending_stock := v\<rparr>) f2
                 (groupby_ffill (map (\<lambda>r. (full_ticker r, full_spending_stock r)) f2));
          f4 = map2 (\<lambda>r v. r\<lparr>full_invested_cash_stock := v\<rparr>) f3
                 (groupby_ffill (map (\<lambda>r. (full_ticker r, full_invested_cash_stock r)) f3))
      in f4)"

text \<open>
  Lines 100 to 103: \<^verbatim>\<open>hist_data.merge(full_df, how='left', on=["ticker", "date"])\<close>.
  Every row of the price table is kept, in order; the grid pairs of \<^verbatim>\<open>full_df\<close> are
  distinct, so a price row matches at most one row, and gets NaN cells when it matches none.
  The three derived columns do not exist yet.
\<close>

definition merge_left :: "hist_row list \<Rightarrow> full_row list \<Rightarrow> obs list" where
  "merge_left hist full =
     map (\<lambda>h.
       case find (\<lambda>f. full_ticker f = hist_ticker h \<and> full_date f = hist_date h) full of
         None \<Rightarrow> \<lparr>ticker = hist_ticker h, date = hist_date h, close = hist_close h,
                   quantity_stock = NaN, spending_stock = NaN, invested_cash_stock = NaN,
                   valuation = NaN, balance = NaN, profit_rate = NaN\<rparr>
       | Some f \<Rightarrow> \<lparr>ticker = hist_ticker h, date = hist_date h, close = hist_close h,
                    quantity_stock = full_quantity_stock f,
                    spending_stock = full_spending_stock f,
                    invested_cash_stock = full_invested_cash_stock f,
                    valuation = NaN, balance = NaN, profit_rate = NaN\<rparr>) hist"

text \<open>Lines 107 to 113: valuation, balance and profit rate of one row.\<close>

definition compute_metrics :: "obs \<Rightarrow> obs" where
  "compute_metrics r =
     (let r1 = r\<lparr>valuation := fmul (quantity_stock r) (close r)\<rparr>;
          r2 = r1\<lparr>balance := fsub (valuation r1) (spending_stock r1)\<rparr>;
          r3 = r2\<lparr>profit_rate := fdiv (balance r2) (invested_cash_stock r2)\<rparr>
      in r3)"

text \<open>Lines 119 and 120: the two \<^verbatim>\<open>where(~close.isna(), np.nan)\<close> assignments on one row.\<close>

definition mask_row :: "obs \<Rightarrow> obs" where
  "mask_row r =
     (let r1 = r\<lparr>spending_stock := where_cell (\<not> isna (close r)) NaN (spending_stock r)\<rparr>;
          r2 = r1\<lparr>invested_cash_stock :=
                    where_cell (\<not> isna (close r1)) NaN (invested_cash_stock r1)\<rparr>
      in r2)"

text \<open>
  \<^verbatim>\<open>fetch_hist_data(df, portfolio)\<close>. The price lookup \<open>yf_download\<close> and the day
  \<open>today\<close> are parameters. \<^verbatim>\<open>set_index(...).reindex(...)\<close> raises a ValueError when two
  rows of \<^verbatim>\<open>df\<close> have the same ticker and date.
\<close>

definition fetch_hist_data ::
  "(ticker list \<Rightarrow> date \<Rightarrow> hist_row list) \<Rightarrow> date \<Rightarrow> txrow list \<Rightarrow> (ticker \<times> 'a) list
    \<Rightarrow> error + obs list" where
  "fetch_hist_data yf_download today df portfolio =
     (let hist_data = yf_download (map fst portfolio) start_date in
      if \<not> distinct (map (\<lambda>r. (tx_ticker r, tx_date r)) df) then Inl ValueError
      else Inr (map mask_row (map compute_metrics (merge_left hist_data (full_df df today)))))"

subsection \<open>The ledger and \<^verbatim>\<open>format_transactions\<close>\<close>

text \<open>
  \<^verbatim>\<open>portfolio.yaml\<close>, as \<^verbatim>\<open>safe_load\<close> returns it: a dict from ticker to a dict from
  date to a list of attribute dicts. A dict is the list of its entries in insertion
  order (the order \<^verbatim>\<open>.items()\<close> iterates in); \<open>wf_ledger\<close> says that the keys of each
  dict are distinct. Of an attribute dict the code reads the keys \<^verbatim>\<open>QTE\<close> and
  \<^verbatim>\<open>PRICE\<close> only: \<open>None\<close> is an absent key. A number of the ledger is an integer or
  a float; a quantity is a number, a price is a number or a string.
\<close>

datatype yaml_number = YInt "64 word" | YFloat fval

datatype yaml_scalar = YNum yaml_number | YStr string

record item =
  QTE :: "yaml_number option"
  PRICE :: "yaml_scalar option"

type_synonym ledger = "(ticker \<times> (date \<times> item list) list) list"

definition wf_ledger :: "ledger \<Rightarrow> bool" where
  "wf_ledger portfolio =
     (distinct (map fst portfolio) \<and> list_all (\<lambda>(t, txs). distinct (map fst txs)) portfolio)"

text \<open>
  \<^verbatim>\<open>pd.to_numeric(v, errors="coerce")\<close>: a number is returned as it is, a string is
  parsed, and a string that is not a number gives NaN. The parser of strings is a
  parameter.
\<close>

definition to_numeric :: "(string \<Rightarrow> yaml_number option) \<Rightarrow> yaml_scalar \<Rightarrow> yaml_number" where
  "to_numeric parse v =
     (case v of
        YNum n \<Rightarrow> n
      | YStr s \<Rightarrow> (case parse s of Some n \<Rightarrow> n | None \<Rightarrow> YFloat NaN))"

text \<open>
  Line 28: \<^verbatim>\<open>next((item['QTE'] for item in details if 'QTE' in item), None)\<close>, and
  line 29, the same for \<^verbatim>\<open>PRICE\<close> through \<^verbatim>\<open>pd.to_numeric\<close>.
\<close>

definition first_QTE :: "item list \<Rightarrow> yaml_number option" where
  "first_QTE details =
     (case find (\<lambda>item. QTE item \<noteq> None) details of None \<Rightarrow> None | Some item \<Rightarrow> QTE item)"

definition first_PRICE ::
  "(string \<Rightarrow> yaml_number option) \<Rightarrow> item list \<Rightarrow> yaml_number option" where
  "first_PRICE parse details =
     (case find (\<lambda>item. PRICE item \<noteq> None) details of
        None \<Rightarrow> None
      | Some item \<Rightarrow> map_option (to_numeric parse) (PRICE item))"

text \<open>One dict appended to \<^verbatim>\<open>records\<close> (lines 33 to 39).\<close>

record raw_record =
  raw_date :: date
  raw_ticker :: ticker
  raw_quantity_flow :: "yaml_number option"
  raw_price :: "yaml_number option"
  raw_buy_price_yahoo :: fval

text \<open>
  The body of the inner loop. \<open>yf_close t a b\<close> is the column \<^verbatim>\<open>Close\<close> of
  \<^verbatim>\<open>yf.download(t, start=a, end=b, group_by="ticker")\<close>, empty when there is no data.
\<close>

definition make_record ::
  "(string \<Rightarrow> yaml_number option) \<Rightarrow> (ticker \<Rightarrow> date \<Rightarrow> date \<Rightarrow> fval list) \<Rightarrow> ticker
    \<Rightarrow> date \<Rightarrow> item list \<Rightarrow> raw_record" where
  "make_record parse yf_close t d details =
     (let qte = first_QTE details;
          price = first_PRICE parse details;
          buy_price_yahoo = yf_close t d (d + 1)
      in if buy_price_yahoo \<noteq> []
         then \<lparr>raw_date = d, raw_ticker = t, raw_quantity_flow = qte, raw_price = price,
                raw_buy_price_yahoo = hd buy_price_yahoo\<rparr>
         else \<lparr>raw_date = d, raw_ticker = t, raw_quantity_flow = qte, raw_price = price,
                raw_buy_price_yahoo = NaN\<rparr>)"

text \<open>The two nested loops over the ledger (lines 25 to 39).\<close>

definition make_records ::
  "(string \<Rightarrow> yaml_number option) \<Rightarrow> (ticker \<Rightarrow> date \<Rightarrow> date \<Rightarrow> fval list) \<Rightarrow> ledger
    \<Rightarrow> raw_record list" where
  "make_records parse yf_close portfolio =
     concat (map (\<lambda>(t, transactions).
       map (\<lambda>(d, details). make_record parse yf_close t d details) transactions) portfolio)"

text \<open>
  The working table of \<^verbatim>\<open>format_transactions\<close>: the columns of the result and the
  column \<^verbatim>\<open>buy_price_yahoo\<close>, which the last statement drops.
\<close>

record frame_row = txrow +
  tx_buy_price_yahoo :: fval

text \<open>
  \<^verbatim>\<open>pd.DataFrame(records)\<close>, line 42. The dtype of a column of numbers and
  \<^verbatim>\<open>None\<close>: \<^verbatim>\<open>object\<close> (here \<open>None\<close>) when every cell is \<^verbatim>\<open>None\<close>,
  \<^verbatim>\<open>int64\<close> when every cell is an integer, \<^verbatim>\<open>float64\<close> otherwise, and then a
  \<^verbatim>\<open>None\<close> cell is NaN.
\<close>

fun is_YInt :: "yaml_number option \<Rightarrow> bool" where
  "is_YInt (Some (YInt n)) = True"
| "is_YInt (Some (YFloat x)) = False"
| "is_YInt None = False"

definition column_dtype :: "yaml_number option list \<Rightarrow> dtype option" where
  "column_dtype cells =
     (if list_all (\<lambda>c. c = None) cells then None
      else if list_all is_YInt cells then Some int64
      else Some float64)"

fun number_cell :: "yaml_number \<Rightarrow> fval" where
  "number_cell (YInt n) = Fin (of_int (sint n))"
| "number_cell (YFloat x) = x"

definition none_to_nan :: "yaml_number option \<Rightarrow> fval" where
  "none_to_nan v = (case v of None \<Rightarrow> NaN | Some n \<Rightarrow> number_cell n)"

text \<open>
  The rows of the DataFrame, one per record. The five columns computed later are not
  there yet; their cells start as NaN and are assigned before they are read.
\<close>

definition DataFrame :: "raw_record list \<Rightarrow> frame_row list" where
  "DataFrame records =
     map (\<lambda>r. \<lparr>tx_date = raw_date r, tx_ticker = raw_ticker r,
                tx_quantity_flow = none_to_nan (raw_quantity_flow r),
                tx_price = none_to_nan (raw_price r),
                tx_quantity_stock = NaN, tx_spending_flow = NaN, tx_spending_stock = NaN,
                tx_invested_cash_flow = NaN, tx_invested_cash_stock = NaN,
                tx_buy_price_yahoo = raw_buy_price_yahoo r\<rparr>) records"

text \<open>The dtype of the product of two numeric columns.\<close>

definition product_dtype :: "dtype \<Rightarrow> dtype \<Rightarrow> dtype" where
  "product_dtype a b = (if a = int64 \<and> b = int64 then int64 else float64)"

text \<open>
  Lines 45 to 57 on a table whose columns \<^verbatim>\<open>quantity_flow\<close> and \<^verbatim>\<open>price\<close> have the
  dtypes \<open>qd\<close> and \<open>pd\<close>: the sort (line 45), the market price where the declared
  price is missing (line 49), the running sums and flows (lines 51 to 55), the drop
  (line 57).
\<close>

definition add_columns :: "dtype \<Rightarrow> dtype \<Rightarrow> frame_row list \<Rightarrow> txrow list" where
  "add_columns qd pd frame =
     (let df0 = sort_key (\<lambda>r. (tx_ticker r, tx_date r)) frame;
          df1 = map (\<lambda>r. r\<lparr>tx_price :=
                   if isna (tx_price r) then tx_buy_price_yahoo r else tx_price r\<rparr>) df0;
          df2 = map2 (\<lambda>r v. r\<lparr>tx_quantity_stock := v\<rparr>) df1
                  (groupby_cumsum qd (map (\<lambda>r. (tx_ticker r, tx_quantity_flow r)) df1));
          fd = product_dtype qd pd;
          df3 = map (\<lambda>r. r\<lparr>tx_spending_flow :=
                   col_mul fd (tx_quantity_flow r) (tx_price r)\<rparr>) df2;
          df4 = map2 (\<lambda>r v. r\<lparr>tx_spending_stock := v\<rparr>) df3
                  (groupby_cumsum fd (map (\<lambda>r. (tx_ticker r, tx_spending_flow r)) df3));
          df5 = map (\<lambda>r. r\<lparr>tx_invested_cash_flow :=
                   col_mul fd
                     (where_cell (fpos (tx_quantity_flow r)) (Fin 0) (tx_quantity_flow r))
                     (tx_price r)\<rparr>) df4;
          df6 = map2 (\<lambda>r v. r\<lparr>tx_invested_cash_stock := v\<rparr>) df5
                  (groupby_cumsum fd (map (\<lambda>r. (tx_ticker r, tx_invested_cash_flow r)) df5))
      in map txrow.truncate df6)"

text \<open>
  \<^verbatim>\<open>format_transactions(portfolio)\<close>. With no record at all the DataFrame has no
  column, and \<^verbatim>\<open>sort_values(by=["ticker", "date"])\<close> raises \<^verbatim>\<open>KeyError: 'ticker'\<close>.
  When no record has a quantity, the column \<^verbatim>\<open>quantity_flow\<close> is an \<^verbatim>\<open>object\<close>
  column and its running sum at line 51 raises a TypeError; when no record has a
  declared price, the column \<^verbatim>\<open>price\<close> is one, and so is \<^verbatim>\<open>spending_flow\<close>, whose
  running sum at line 53 raises a TypeError.
\<close>

definition format_transactions ::
  "(string \<Rightarrow> yaml_number option) \<Rightarrow> (ticker \<Rightarrow> date \<Rightarrow> date \<Rightarrow> fval list) \<Rightarrow> ledger
    \<Rightarrow> error + txrow list" where
  "format_transactions parse yf_close portfolio =
     (let records = make_records parse yf_close portfolio in
      if records = [] then Inl (KeyError ''ticker'')
      else
        case column_dtype (map raw_quantity_flow records) of
          None \<Rightarrow> Inl TypeError
        | Some qd \<Rightarrow>
            (case column_dtype (map raw_price records) of
               None \<Rightarrow> Inl TypeError
             | Some pd \<Rightarrow> Inr (add_columns qd pd (DataFrame records))))"

text \<open>
  The script (lines 126 to 138): load the ledger, format it, fetch the history. An
  exception of the first call ends the run.
\<close>

definition run_pipeline ::
  "(string \<Rightarrow> yaml_number option) \<Rightarrow> (ticker \<Rightarrow> date \<Rightarrow> date \<Rightarrow> fval list)
    \<Rightarrow> (ticker list \<Rightarrow> date \<Rightarrow> hist_row list) \<Rightarrow> date \<Rightarrow> ledger \<Rightarrow> error + obs list" where
  "run_pipeline parse yf_close yf_download today portfolio =
     (case format_transactions parse yf_close portfolio of
        Inl e \<Rightarrow> Inl e
      | Inr df \<Rightarrow> fetch_hist_data yf_download today df portfolio)"

subsection \<open>Vocabulary of the properties\<close>

text \<open>
  The cell of column \<open>col\<close> that \<^verbatim>\<open>df\<close> holds for a ticker and a day: NaN when
  \<^verbatim>\<open>df\<close> has no row for them.
\<close>

definition cell :: "txrow list \<Rightarrow> (txrow \<Rightarrow> fval) \<Rightarrow> ticker \<Rightarrow> date \<Rightarrow> fval" where
  "cell df col t d =
     (case find (\<lambda>r. tx_ticker r = t \<and> tx_date r = d) df of None \<Rightarrow> NaN | Some r \<Rightarrow> col r)"

text \<open>The last cell of a series that is not NaN, and \<open>p\<close> when there is none.\<close>

primrec last_valid_from :: "fval \<Rightarrow> fval list \<Rightarrow> fval" where
  "last_valid_from p [] = p"
| "last_valid_from p (x # xs) = last_valid_from (if isna x then p else x) xs"

text \<open>
  The forward-filled cell of a ticker on a grid day: the last cell of the column that
  is not NaN among the days from \<open>start_date\<close> to that day, NaN when there is none.
\<close>

definition ffilled :: "txrow list \<Rightarrow> (txrow \<Rightarrow> fval) \<Rightarrow> ticker \<Rightarrow> date \<Rightarrow> fval" where
  "ffilled df col t d = last_valid_from NaN (map (cell df col t) [start_date..d])"

text \<open>The row of \<^verbatim>\<open>full_df\<close> for a ticker and a grid day, in closed form.\<close>

definition grid_row :: "txrow list \<Rightarrow> ticker \<Rightarrow> date \<Rightarrow> full_row" where
  "grid_row df t d =
     \<lparr>full_ticker = t, full_date = d,
      full_quantity_stock = fillna (Fin 0) (ffilled df tx_quantity_stock t d),
      full_spending_stock = ffilled df tx_spending_stock t d,
      full_invested_cash_stock = ffilled df tx_invested_cash_stock t d\<rparr>"

text \<open>The state of a grouped forward fill after a prefix of the rows.\<close>

fun ffill_state :: "('k \<Rightarrow> fval) \<Rightarrow> ('k \<times> fval) list \<Rightarrow> ('k \<Rightarrow> fval)" where
  "ffill_state prev [] = prev"
| "ffill_state prev ((k, x) # rest) = ffill_state (if isna x then prev else prev(k := x)) rest"


text \<open>
  A ticker and a day are on the grid of \<^verbatim>\<open>full_df\<close> when the ticker has a row in
  \<^verbatim>\<open>df\<close> and the day lies between \<open>start_date\<close> and today.
\<close>

definition on_grid :: "txrow list \<Rightarrow> date \<Rightarrow> ticker \<Rightarrow> date \<Rightarrow> bool" where
  "on_grid df today t d = (t \<in> set (map tx_ticker df) \<and> start_date \<le> d \<and> d \<le> today)"

text \<open>
  The market price of a ticker on one day, as lines 30 to 39 read it: the first close of
  the one-day download, NaN when the download is empty.
\<close>

definition market_price :: "(ticker \<Rightarrow> date \<Rightarrow> date \<Rightarrow> fval list) \<Rightarrow> ticker \<Rightarrow> date \<Rightarrow> fval" where
  "market_price yf_close t d = (case yf_close t d (d + 1) of [] \<Rightarrow> NaN | x # xs \<Rightarrow> x)"

text \<open>The sorted working table of \<^verbatim>\<open>format_transactions\<close>, before any column is assigned.\<close>

definition sorted_frame ::
  "(string \<Rightarrow> yaml_number option) \<Rightarrow> (ticker \<Rightarrow> date \<Rightarrow> date \<Rightarrow> fval list) \<Rightarrow> ledger
    \<Rightarrow> frame_row list" where
  "sorted_frame parse yf_close portfolio =
     sort_key (\<lambda>r. (tx_ticker r, tx_date r)) (DataFrame (make_records parse yf_close portfolio))"






subsection \<open>Worked inputs\<close>

text \<open>
  One buy of 10 shares of X at 5 on day 18263 (2020-01-02), and a price table for the
  first three days of 2020 whose last close is missing.
\<close>

definition demo_df :: "txrow list" where
  "demo_df =
     [\<lparr>tx_date = 18263, tx_ticker = ''X'', tx_quantity_flow = Fin 10, tx_price = Fin 5,
       tx_quantity_stock = Fin 10, tx_spending_flow = Fin 50, tx_spending_stock = Fin 50,
       tx_invested_cash_flow = Fin 50, tx_invested_cash_stock = Fin 50\<rparr>]"

definition demo_prices :: "ticker list \<Rightarrow> date \<Rightarrow> hist_row list" where
  "demo_prices tickers start =
     [\<lparr>hist_date = 18262, hist_ticker = ''X'', hist_close = Fin 5\<rparr>,
      \<lparr>hist_date = 18263, hist_ticker = ''X'', hist_close = Fin 6\<rparr>,
      \<lparr>hist_date = 18264, hist_ticker = ''X'', hist_close = NaN\<rparr>]"

definition demo_out :: "obs list" where
  "demo_out =
     [\<lparr>ticker = ''X'', date = 18262, close = Fin 5, quantity_stock = Fin 0,
       spending_stock = NaN, invested_cash_stock = NaN, valuation = Fin 0,
       balance = NaN, profit_rate = NaN\<rparr>,
      \<lparr>ticker = ''X'', date = 18263, close = Fin 6, quantity_stock = Fin 10,
       spending_stock = Fin 50, invested_cash_stock = Fin 50, valuation = Fin 60,
       balance = Fin 10, profit_rate = Fin (1 / 5)\<rparr>,
      \<lparr>ticker = ''X'', date = 18264, close = NaN, quantity_stock = Fin 10,
       spending_stock = NaN, invested_cash_stock = NaN, valuation = NaN,
       balance = NaN, profit_rate = NaN\<rparr>]"

text \<open>
  The same transaction with the price table of a real week: Thursday 2020-01-02 (day
  18263), Friday, and Monday 2020-01-06 (day 18267), with no row for the holiday and
  the weekend.
\<close>

definition weekend_prices :: "ticker list \<Rightarrow> date \<Rightarrow> hist_row list" where
  "weekend_prices tickers start =
     [\<lparr>hist_date = 18263, hist_ticker = ''X'', hist_close = Fin 5\<rparr>,
      \<lparr>hist_date = 18264, hist_ticker = ''X'', hist_close = Fin 6\<rparr>,
      \<lparr>hist_date = 18267, hist_ticker = ''X'', hist_close = Fin 7\<rparr>]"

text \<open>
  A ledger with ten shares of X received at price 0 on day 18263, a closing price of
  12 that day, no string prices and no market data for single days.
\<close>

definition gift_ledger :: ledger where
  "gift_ledger =
     [(''X'', [(18263, [\<lparr>QTE = Some (YInt 10), PRICE = None\<rparr>,
                        \<lparr>QTE = None, PRICE = Some (YNum (YInt 0))\<rparr>])])]"

definition gift_prices :: "ticker list \<Rightarrow> date \<Rightarrow> hist_row list" where
  "gift_prices tickers start = [\<lparr>hist_date = 18263, hist_ticker = ''X'', hist_close = Fin 12\<rparr>]"

definition no_parse :: "string \<Rightarrow> yaml_number option" where
  "no_parse s = None"

definition no_close :: "ticker \<Rightarrow> date \<Rightarrow> date \<Rightarrow> fval list" where
  "no_close t a b = []"

definition weekend_out :: "obs list" where
  "weekend_out =
     [\<lparr>ticker = ''X'', date = 18263, close = Fin 5, quantity_stock = Fin 10,
       spending_stock = Fin 50, invested_cash_stock = Fin 50, valuation = Fin 50,
       balance = Fin 0, profit_rate = Fin 0\<rparr>,
      \<lparr>ticker = ''X'', date = 18264, close = Fin 6, quantity_stock = Fin 10,
       spending_stock = Fin 50, invested_cash_stock = Fin 50, valuation = Fin 60,
       balance = Fin 10, profit_rate = Fin (1 / 5)\<rparr>,
      \<lparr>ticker = ''X'', date = 18267, close = Fin 7, quantity_stock = Fin 10,
       spending_stock = Fin 50, invested_cash_stock = Fin 50, valuation = Fin 70,
       balance = Fin 20, profit_rate = Fin (2 / 5)\<rparr>]"

definition gift_df :: "txrow list" where
  "gift_df =
     [\<lparr>tx_date = 18263, tx_ticker = ''X'', tx_quantity_flow = Fin 10, tx_price = Fin 0,
       tx_quantity_stock = Fin 10, tx_spending_flow = Fin 0, tx_spending_stock = Fin 0,
       tx_invested_cash_flow = Fin 0, tx_invested_cash_stock = Fin 0\<rparr>]"

definition gift_row :: obs where
  "gift_row =
     \<lparr>ticker = ''X'', date = 18263, close = Fin 12, quantity_stock = Fin 10,
      spending_stock = Fin 0, invested_cash_stock = Fin 0, valuation = Fin 120,
      balance = Fin 120, profit_rate = PInf\<rparr>"

text \<open>
  A ledger whose only transaction is older than \<open>start_date\<close>: five shares of X bought
  at 10 on day 18261 (2019-12-31).
\<close>

definition old_ledger :: ledger where
  "old_ledger =
     [(''X'', [(18261, [\<lparr>QTE = Some (YInt 5), PRICE = None\<rparr>,
                        \<lparr>QTE = None, PRICE = Some (YNum (YInt 10))\<rparr>])])]"

definition old_df :: "txrow list" where
  "old_df =
     [\<lparr>tx_date = 18261, tx_ticker = ''X'', tx_quantity_flow = Fin 5, tx_price = Fin 10,
       tx_quantity_stock = Fin 5, tx_spending_flow = Fin 50, tx_spending_stock = Fin 50,
       tx_invested_cash_flow = Fin 50, tx_invested_cash_stock = Fin 50\<rparr>]"

text \<open>
  Three ledgers for the normalizer. In the first, the entry of day 18264 has a price
  and no quantity. In the second, one entry has two quantity records of 5. In the
  third, the price is declared as a number on day 18263, declared as the text
  \<^verbatim>\<open>n/a\<close> on day 18264, where the market closes at 4, not declared on day 18265,
  where there is no market data, and declared as the text \<^verbatim>\<open>12.5\<close> on day 18266;
  the parser reads \<^verbatim>\<open>12.5\<close> and no other text.
\<close>

definition noqte_ledger :: ledger where
  "noqte_ledger =
     [(''X'', [(18263, [\<lparr>QTE = Some (YInt 5), PRICE = None\<rparr>,
                        \<lparr>QTE = None, PRICE = Some (YNum (YInt 10))\<rparr>]),
               (18264, [\<lparr>QTE = None, PRICE = Some (YNum (YInt 11))\<rparr>])])]"

definition noqte_df :: "txrow list" where
  "noqte_df =
     [\<lparr>tx_date = 18263, tx_ticker = ''X'', tx_quantity_flow = Fin 5, tx_price = Fin 10,
       tx_quantity_stock = Fin 5, tx_spending_flow = Fin 50, tx_spending_stock = Fin 50,
       tx_invested_cash_flow = Fin 50, tx_invested_cash_stock = Fin 50\<rparr>,
      \<lparr>tx_date = 18264, tx_ticker = ''X'', tx_quantity_flow = NaN, tx_price = Fin 11,
       tx_quantity_stock = NaN, tx_spending_flow = NaN, tx_spending_stock = NaN,
       tx_invested_cash_flow = Fin 0, tx_invested_cash_stock = Fin 50\<rparr>]"

definition twice_ledger :: ledger where
  "twice_ledger =
     [(''X'', [(18263, [\<lparr>QTE = Some (YInt 5), PRICE = None\<rparr>,
                        \<lparr>QTE = Some (YInt 5), PRICE = None\<rparr>,
                        \<lparr>QTE = None, PRICE = Some (YNum (YInt 10))\<rparr>])])]"

definition twice_df :: "txrow list" where
  "twice_df =
     [\<lparr>tx_date = 18263, tx_ticker = ''X'', tx_quantity_flow = Fin 5, tx_price = Fin 10,
       tx_quantity_stock = Fin 5, tx_spending_flow = Fin 50, tx_spending_stock = Fin 50,
       tx_invested_cash_flow = Fin 50, tx_invested_cash_stock = Fin 50\<rparr>]"



definition friday_close :: "ticker \<Rightarrow> date \<Rightarrow> date \<Rightarrow> fval list" where
  "friday_close t a b = (if a = 18264 then [Fin 4] else [])"











text \<open>
  The worked table of the first example with the prices of the real week and the clock
  of the machine on day 18264: the price row of Monday 18267 is later than the grid.
\<close>

definition ahead_out :: "obs list" where
  "ahead_out =
     [\<lparr>ticker = ''X'', date = 18263, close = Fin 5, quantity_stock = Fin 10,
       spending_stock = Fin 50, invested_cash_stock = Fin 50, valuation = Fin 50,
       balance = Fin 0, profit_rate = Fin 0\<rparr>,
      \<lparr>ticker = ''X'', date = 18264, close = Fin 6, quantity_stock = Fin 10,
       spending_stock = Fin 50, invested_cash_stock = Fin 50, valuation = Fin 60,
       balance = Fin 10, profit_rate = Fin (1 / 5)\<rparr>,
      \<lparr>ticker = ''X'', date = 18267, close = Fin 7, quantity_stock = NaN,
       spending_stock = NaN, invested_cash_stock = NaN, valuation = NaN,
       balance = NaN, profit_rate = NaN\<rparr>]"

text \<open>The price of the first day of 2020 for the ledger with the purchase of 2019.\<close>

definition old_prices :: "ticker list \<Rightarrow> date \<Rightarrow> hist_row list" where
  "old_prices tickers start = [\<lparr>hist_date = 18262, hist_ticker = ''X'', hist_close = Fin 10\<rparr>]"

definition old_out :: "obs list" where
  "old_out =
     [\<lparr>ticker = ''X'', date = 18262, close = Fin 10, quantity_stock = Fin 0,
       spending_stock = NaN, invested_cash_stock = NaN, valuation = Fin 0,
       balance = NaN, profit_rate = NaN\<rparr>]"

section \<open>Properties\<close>

subsection \<open>NaN propagates\<close>

lemma fmul_NaN_right: "fmul x NaN = NaN"
  by (cases x) auto

lemma fsub_NaN_left: "fsub NaN y = NaN"
  by (simp add: fsub_def)

lemma fdiv_NaN_right: "fdiv x NaN = NaN"
  by (cases x) auto

subsection \<open>The worked run\<close>

lemma demo_run: "fetch_hist_data demo_prices 18264 demo_df [(''X'', ())] = Inr demo_out"
  by code_simp

lemma gift_format: "format_transactions no_parse no_close gift_ledger = Inr gift_df"
  by code_simp

lemma gift_fetch: "fetch_hist_data gift_prices 18263 gift_df gift_ledger = Inr [gift_row]"
  by code_simp

lemma fdiv_zero:
  "fdiv b (Fin 0) = (if b = NaN \<or> b = Fin 0 then NaN else if fpos b then PInf else NInf)"
  by (cases b) auto

subsection \<open>The rows of the result\<close>

lemma fetch_hist_data_rows:
  assumes "fetch_hist_data yf_download today df portfolio = Inr out"
  shows "out = map (mask_row \<circ> compute_metrics)
           (merge_left (yf_download (map fst portfolio) start_date) (full_df df today))"
  using assms by (simp add: fetch_hist_data_def Let_def split: if_splits)

subsection \<open>Grouped forward fill on the calendar grid\<close>

lemma groupby_ffill_from_append:
  "groupby_ffill_from prev (xs @ ys) =
     groupby_ffill_from prev xs @ groupby_ffill_from (ffill_state prev xs) ys"
  by (induction xs arbitrary: prev) auto

lemma ffill_state_other: "k \<notin> fst ` set xs \<Longrightarrow> ffill_state prev xs k = prev k"
  by (induction xs arbitrary: prev) auto

lemma groupby_ffill_from_cong:
  "(\<And>k. k \<in> fst ` set xs \<Longrightarrow> prev k = prev' k) \<Longrightarrow>
     groupby_ffill_from prev xs = groupby_ffill_from prev' xs"
proof (induction xs arbitrary: prev prev')
  case Nil
  then show ?case by simp
next
  case (Cons kx xs)
  obtain k x where kx: "kx = (k, x)"
    by (cases kx)
  have a: "groupby_ffill_from prev xs = groupby_ffill_from prev' xs"
    by (rule Cons.IH) (simp add: Cons.prems)
  have b: "groupby_ffill_from (prev(k := x)) xs = groupby_ffill_from (prev'(k := x)) xs"
    by (rule Cons.IH) (simp add: Cons.prems)
  have c: "prev k = prev' k"
    by (rule Cons.prems) (simp add: kx)
  show ?case
    by (simp add: kx a b c)
qed

lemma last_valid_from_snoc:
  "last_valid_from p (xs @ [x]) = (if isna x then last_valid_from p xs else x)"
  by (induction xs arbitrary: p) auto

lemma ffill_one_group:
  "groupby_ffill_from prev (map (\<lambda>d. (t, g d)) [a..b]) =
     map (\<lambda>d. last_valid_from (prev t) (map g [a..d])) [a..b]"
proof (induction a b arbitrary: prev rule: upto.induct)
  case (1 i j)
  show ?case
  proof (cases "i \<le> j")
    case True
    have split: "[i..j] = i # [i + 1..j]"
      using True by (simp add: upto_rec1)
    have tl: "\<And>d. d \<in> set [i + 1..j] \<Longrightarrow> [i..d] = i # [i + 1..d]"
      by (simp add: upto_rec1)
    show ?thesis
      using 1 [OF True] True tl
      by (simp add: split cong: map_cong)
  next
    case False
    then show ?thesis by simp
  qed
qed


lemma ffill_product:
  "distinct ts \<Longrightarrow>
     groupby_ffill_from prev (map (\<lambda>(t, d). (t, f t d)) (List.product ts [a..b])) =
     map (\<lambda>(t, d). last_valid_from (prev t) (map (f t) [a..d])) (List.product ts [a..b])"
proof (induction ts)
  case Nil
  then show ?case by simp
next
  case (Cons t ts)
  let ?A = "map (\<lambda>d. (t, f t d)) [a..b]"
  let ?B = "map (\<lambda>(t, d). (t, f t d)) (List.product ts [a..b])"
  have keys: "\<And>k. k \<in> fst ` set ?B \<Longrightarrow> ffill_state prev ?A k = prev k"
  proof -
    fix k assume "k \<in> fst ` set ?B"
    then have "k \<in> set ts" by auto
    with Cons.prems have "k \<noteq> t" by auto
    then have "k \<notin> fst ` set ?A" by auto
    then show "ffill_state prev ?A k = prev k"
      by (rule ffill_state_other)
  qed
  have "groupby_ffill_from prev (?A @ ?B) =
          groupby_ffill_from prev ?A @ groupby_ffill_from prev ?B"
    by (simp only: groupby_ffill_from_append groupby_ffill_from_cong [OF keys])
  moreover have "groupby_ffill_from prev ?B =
      map (\<lambda>(t, d). last_valid_from (prev t) (map (f t) [a..d])) (List.product ts [a..b])"
    using Cons by simp
  ultimately show ?case
    by (simp add: ffill_one_group comp_def)
qed

lemma map2_same: "map2 F (map f xs) (map g xs) = map (\<lambda>x. F (f x) (g x)) xs"
  by (induction xs) auto

lemma set_unique: "set (unique xs) = set xs"
  by (induction xs rule: unique.induct) auto

lemma distinct_unique: "distinct (unique xs)"
  by (induction xs rule: unique.induct) (auto simp: set_unique)

lemma reindex_cell:
  "reindex df idx =
     map (\<lambda>(t, d). \<lparr>full_ticker = t, full_date = d,
            full_quantity_stock = cell df tx_quantity_stock t d,
            full_spending_stock = cell df tx_spending_stock t d,
            full_invested_cash_stock = cell df tx_invested_cash_stock t d\<rparr>) idx"
  by (auto simp: reindex_def cell_def split: option.splits)

lemma ffill_column:
  assumes "distinct ts" and "\<And>t d. key (row t d) = t"
  shows "map2 upd (map (\<lambda>(t, d). row t d) (List.product ts [a..b]))
           (groupby_ffill (map (\<lambda>r. (key r, col r))
              (map (\<lambda>(t, d). row t d) (List.product ts [a..b])))) =
         map (\<lambda>(t, d). upd (row t d) (last_valid_from NaN (map (\<lambda>d'. col (row t d')) [a..d])))
           (List.product ts [a..b])"
proof -
  have "map (\<lambda>r. (key r, col r)) (map (\<lambda>(t, d). row t d) (List.product ts [a..b])) =
        map (\<lambda>(t, d). (t, col (row t d))) (List.product ts [a..b])"
    by (simp add: assms(2) case_prod_unfold)
  then have "groupby_ffill (map (\<lambda>r. (key r, col r))
               (map (\<lambda>(t, d). row t d) (List.product ts [a..b]))) =
             map (\<lambda>(t, d). last_valid_from NaN (map (\<lambda>d'. col (row t d')) [a..d]))
               (List.product ts [a..b])"
    by (simp only: groupby_ffill_def ffill_product [OF assms(1)])
  then show ?thesis
    by (simp only: map2_same) (simp add: case_prod_unfold)
qed

lemma full_df_closed:
  "full_df df today = map (\<lambda>(t, d). grid_row df t d) (multi_index df today)"
proof -
  define ts where "ts = unique (map tx_ticker df)"
  define r0 where "r0 = (\<lambda>t d. \<lparr>full_ticker = t, full_date = d,
            full_quantity_stock = cell df tx_quantity_stock t d,
            full_spending_stock = cell df tx_spending_stock t d,
            full_invested_cash_stock = cell df tx_invested_cash_stock t d\<rparr>)"
  define r1 where "r1 = (\<lambda>t d. (r0 t d)\<lparr>full_quantity_stock := ffilled df tx_quantity_stock t d\<rparr>)"
  define r2 where "r2 = (\<lambda>t d. (r1 t d)\<lparr>full_quantity_stock := fillna (Fin 0) (full_quantity_stock (r1 t d))\<rparr>)"
  define r3 where "r3 = (\<lambda>t d. (r2 t d)\<lparr>full_spending_stock := ffilled df tx_spending_stock t d\<rparr>)"
  define r4 where "r4 = (\<lambda>t d. (r3 t d)\<lparr>full_invested_cash_stock := ffilled df tx_invested_cash_stock t d\<rparr>)"
  define f0 where "f0 = reindex df (multi_index df today)"
  define f1 where "f1 = map2 (\<lambda>r v. r\<lparr>full_quantity_stock := v\<rparr>) f0
                 (groupby_ffill (map (\<lambda>r. (full_ticker r, full_quantity_stock r)) f0))"
  define f2 where "f2 = map (\<lambda>r. r\<lparr>full_quantity_stock := fillna (Fin 0) (full_quantity_stock r)\<rparr>) f1"
  define f3 where "f3 = map2 (\<lambda>r v. r\<lparr>full_spending_stock := v\<rparr>) f2
                 (groupby_ffill (map (\<lambda>r. (full_ticker r, full_spending_stock r)) f2))"
  define f4 where "f4 = map2 (\<lambda>r v. r\<lparr>full_invested_cash_stock := v\<rparr>) f3
                 (groupby_ffill (map (\<lambda>r. (full_ticker r, full_invested_cash_stock r)) f3))"
  have d: "distinct ts"
    by (simp add: ts_def distinct_unique)
  have idx: "multi_index df today = List.product ts [start_date..today]"
    by (simp add: multi_index_def all_dates_def ts_def)
  have e0: "f0 = map (\<lambda>(t, d). r0 t d) (List.product ts [start_date..today])"
    by (simp add: f0_def reindex_cell idx r0_def)
  have e1: "f1 = map (\<lambda>(t, d). r1 t d) (List.product ts [start_date..today])"
    unfolding f1_def e0
    by (subst ffill_column [OF d]) (simp_all add: r0_def r1_def ffilled_def)
  have e2: "f2 = map (\<lambda>(t, d). r2 t d) (List.product ts [start_date..today])"
    by (simp add: f2_def e1 r2_def case_prod_unfold)
  have e3: "f3 = map (\<lambda>(t, d). r3 t d) (List.product ts [start_date..today])"
    unfolding f3_def e2
    by (subst ffill_column [OF d])
      (simp_all add: r0_def r1_def r2_def r3_def ffilled_def)
  have e4: "f4 = map (\<lambda>(t, d). r4 t d) (List.product ts [start_date..today])"
    unfolding f4_def e3
    by (subst ffill_column [OF d])
      (simp_all add: r0_def r1_def r2_def r3_def r4_def ffilled_def)
  have "r4 = grid_row df"
    by (simp add: r4_def r3_def r2_def r1_def r0_def grid_row_def fun_eq_iff)
  moreover have "full_df df today = f4"
    by (simp only: full_df_def Let_def f4_def f3_def f2_def f1_def f0_def)
  ultimately show ?thesis
    by (simp add: e4 idx)
qed

subsection \<open>The rows of the result, in closed form\<close>

lemma grid_row_key [simp]:
  "full_ticker (grid_row df t d) = t" "full_date (grid_row df t d) = d"
  by (simp_all add: grid_row_def)

lemma find_grid_row:
  "find (\<lambda>f. full_ticker f = t \<and> full_date f = d) (map (\<lambda>(t, d). grid_row df t d) idx) =
     (if (t, d) \<in> set idx then Some (grid_row df t d) else None)"
  by (induction idx) auto

lemma multi_index_set:
  "(t, d) \<in> set (multi_index df today) \<longleftrightarrow> on_grid df today t d"
  by (auto simp: multi_index_def all_dates_def on_grid_def set_unique)

lemma find_full_df:
  "find (\<lambda>f. full_ticker f = t \<and> full_date f = d) (full_df df today) =
     (if on_grid df today t d then Some (grid_row df t d) else None)"
  by (simp add: full_df_closed find_grid_row multi_index_set)

lemma fetch_row_obtain:
  assumes "fetch_hist_data yf_download today df portfolio = Inr out" and "r \<in> set out"
  obtains h m where "h \<in> set (yf_download (map fst portfolio) start_date)"
    and "r = mask_row (compute_metrics m)"
    and "ticker m = hist_ticker h" and "date m = hist_date h" and "close m = hist_close h"
    and "on_grid df today (ticker m) (date m) \<Longrightarrow>
           quantity_stock m = full_quantity_stock (grid_row df (ticker m) (date m)) \<and>
           spending_stock m = full_spending_stock (grid_row df (ticker m) (date m)) \<and>
           invested_cash_stock m = full_invested_cash_stock (grid_row df (ticker m) (date m))"
    and "\<not> on_grid df today (ticker m) (date m) \<Longrightarrow>
           quantity_stock m = NaN \<and> spending_stock m = NaN \<and> invested_cash_stock m = NaN"
proof -
  from fetch_hist_data_rows [OF assms(1)] assms(2)
  obtain m where m: "m \<in> set (merge_left (yf_download (map fst portfolio) start_date)
      (full_df df today))" and r: "r = mask_row (compute_metrics m)"
    by auto
  from m obtain h where h: "h \<in> set (yf_download (map fst portfolio) start_date)"
    and mh: "m = (if on_grid df today (hist_ticker h) (hist_date h)
       then \<lparr>ticker = hist_ticker h, date = hist_date h, close = hist_close h,
              quantity_stock = full_quantity_stock (grid_row df (hist_ticker h) (hist_date h)),
              spending_stock = full_spending_stock (grid_row df (hist_ticker h) (hist_date h)),
              invested_cash_stock =
                full_invested_cash_stock (grid_row df (hist_ticker h) (hist_date h)),
              valuation = NaN, balance = NaN, profit_rate = NaN\<rparr>
       else \<lparr>ticker = hist_ticker h, date = hist_date h, close = hist_close h,
              quantity_stock = NaN, spending_stock = NaN, invested_cash_stock = NaN,
              valuation = NaN, balance = NaN, profit_rate = NaN\<rparr>)"
    by (auto simp: merge_left_def find_full_df)
  show thesis
  proof (cases "on_grid df today (hist_ticker h) (hist_date h)")
    case True
    with mh show ?thesis
      by (intro that [OF h r]) simp_all
  next
    case False
    with mh show ?thesis
      by (intro that [OF h r]) simp_all
  qed
qed

lemma mask_metrics_frame:
  "ticker (mask_row (compute_metrics m)) = ticker m"
  "date (mask_row (compute_metrics m)) = date m"
  "close (mask_row (compute_metrics m)) = close m"
  "quantity_stock (mask_row (compute_metrics m)) = quantity_stock m"
  by (simp_all add: mask_row_def compute_metrics_def)

lemma merge_left_keys:
  "map (\<lambda>r. (ticker r, date r, close r)) (merge_left hist full) =
   map (\<lambda>h. (hist_ticker h, hist_date h, hist_close h)) hist"
  by (simp add: merge_left_def comp_def split: option.splits)

subsection \<open>Cells with no transaction\<close>

lemma find_Some_set: "find P xs = Some x \<Longrightarrow> x \<in> set xs \<and> P x"
  by (induction xs) (auto split: if_splits)

lemma cell_none:
  "(\<And>x. x \<in> set df \<Longrightarrow> tx_ticker x = t \<Longrightarrow> tx_date x \<noteq> d) \<Longrightarrow> cell df col t d = NaN"
  by (auto simp: cell_def split: option.splits dest: find_Some_set)

lemma last_valid_from_all_nan: "(\<And>x. x \<in> set xs \<Longrightarrow> isna x) \<Longrightarrow> last_valid_from p xs = p"
  by (induction xs arbitrary: p) auto

lemma ffilled_none:
  assumes "\<And>x. x \<in> set df \<Longrightarrow> tx_ticker x = t \<Longrightarrow> tx_date x < start_date \<or> d < tx_date x"
  shows "ffilled df col t d = NaN"
proof -
  have "isna (cell df col t d')" if "d' \<in> set [start_date..d]" for d'
  proof -
    have "cell df col t d' = NaN"
    proof (rule cell_none)
      fix x assume "x \<in> set df" "tx_ticker x = t"
      from assms [OF this] that show "tx_date x \<noteq> d'"
        by auto
    qed
    then show ?thesis
      by (simp add: isna_def)
  qed
  then have "last_valid_from NaN (map (cell df col t) [start_date..d]) = NaN"
    by (intro last_valid_from_all_nan) auto
  then show ?thesis
    by (simp add: ffilled_def)
qed

subsection \<open>The forward-filled cell after a transaction\<close>

lemma cell_found:
  assumes "distinct (map (\<lambda>r. (tx_ticker r, tx_date r)) df)" and "x \<in> set df"
  shows "cell df col (tx_ticker x) (tx_date x) = col x"
proof -
  from assms(2) have "find (\<lambda>r. tx_ticker r = tx_ticker x \<and> tx_date r = tx_date x) df \<noteq> None"
    by (auto simp: find_None_iff)
  then obtain y where y: "find (\<lambda>r. tx_ticker r = tx_ticker x \<and> tx_date r = tx_date x) df = Some y"
    by auto
  from find_Some_set [OF y] have "y \<in> set df" "(tx_ticker y, tx_date y) = (tx_ticker x, tx_date x)"
    by auto
  with assms have "y = x"
    by (auto simp: distinct_map dest: inj_onD)
  with y show ?thesis
    by (simp add: cell_def)
qed

lemma last_valid_from_append:
  "last_valid_from p (xs @ ys) = last_valid_from (last_valid_from p xs) ys"
  by (induction xs arbitrary: p) auto

lemma ffilled_nearest:
  assumes dist: "distinct (map (\<lambda>r. (tx_ticker r, tx_date r)) df)"
    and x: "x \<in> set df" "tx_ticker x = t" "start_date \<le> tx_date x" "tx_date x \<le> d"
    and near: "\<And>y. y \<in> set df \<Longrightarrow> tx_ticker y = t \<Longrightarrow> tx_date y \<le> tx_date x \<or> d < tx_date y"
  shows "ffilled df col t d = (if isna (col x) then ffilled df col t (tx_date x - 1) else col x)"
proof -
  let ?c = "cell df col t"
  have split: "[start_date..d] = [start_date..tx_date x - 1] @ tx_date x # [tx_date x + 1..d]"
    using x(3,4) by (rule upto_split3)
  have "isna (?c d')" if "d' \<in> set [tx_date x + 1..d]" for d'
  proof -
    have "?c d' = NaN"
    proof (rule cell_none)
      fix y assume "y \<in> set df" "tx_ticker y = t"
      from near [OF this] that show "tx_date y \<noteq> d'"
        by auto
    qed
    then show ?thesis
      by (simp add: isna_def)
  qed
  then have tail: "last_valid_from p (map ?c [tx_date x + 1..d]) = p" for p
    by (intro last_valid_from_all_nan) auto
  have here: "?c (tx_date x) = col x"
    using cell_found [OF dist x(1)] x(2) by simp
  show ?thesis
    by (simp add: ffilled_def split last_valid_from_append tail here)
qed

subsection \<open>The rows of the transaction table\<close>

lemma length_groupby_cumsum_from [simp]: "length (groupby_cumsum_from dt acc xs) = length xs"
  by (induction xs arbitrary: acc) auto

lemma length_groupby_cumsum [simp]: "length (groupby_cumsum dt xs) = length xs"
  by (simp add: groupby_cumsum_def)

lemma make_record_fields:
  "raw_ticker (make_record parse yf_close t d details) = t"
  "raw_date (make_record parse yf_close t d details) = d"
  "raw_quantity_flow (make_record parse yf_close t d details) = first_QTE details"
  "raw_price (make_record parse yf_close t d details) = first_PRICE parse details"
  "raw_buy_price_yahoo (make_record parse yf_close t d details) =
     market_price yf_close t d"
  by (simp_all add: make_record_def market_price_def Let_def split: list.splits)

lemma make_records_keys:
  "map (\<lambda>r. (raw_ticker r, raw_date r)) (make_records parse yf_close portfolio) =
     concat (map (\<lambda>(t, txs). map (\<lambda>d. (t, d)) (map fst txs)) portfolio)"
  by (induction portfolio)
    (auto simp: make_records_def make_record_fields comp_def case_prod_unfold)

lemma distinct_ledger_keys:
  "wf_ledger portfolio \<Longrightarrow>
     distinct (concat (map (\<lambda>(t, txs). map (\<lambda>d. (t, d)) (map fst txs)) portfolio))"
proof (induction portfolio)
  case Nil
  then show ?case by simp
next
  case (Cons a portfolio)
  obtain t txs where a: "a = (t, txs)"
    by (cases a)
  from Cons.prems have wf: "wf_ledger portfolio" and t: "t \<notin> fst ` set portfolio"
    and d: "distinct (map fst txs)"
    by (auto simp: wf_ledger_def a)
  have "distinct (map (\<lambda>d. (t, d)) (map fst txs))"
    using d by (simp add: distinct_map inj_on_def)
  moreover have "set (map (\<lambda>d. (t, d)) (map fst txs)) \<inter>
      set (concat (map (\<lambda>(t, txs). map (\<lambda>d. (t, d)) (map fst txs)) portfolio)) = {}"
    using t by force
  ultimately show ?case
    using Cons.IH [OF wf] by (simp add: a)
qed

lemma distinct_map_sort_key: "distinct (map f (sort_key f xs)) = distinct (map f xs)"
  by (induction xs) (auto simp: distinct_insort_key)

lemma DataFrame_keys:
  "map (\<lambda>r. (tx_ticker r, tx_date r)) (DataFrame records) =
   map (\<lambda>r. (raw_ticker r, raw_date r)) records"
  by (simp add: DataFrame_def comp_def)

lemma sorted_frame_distinct:
  "wf_ledger portfolio \<Longrightarrow>
     distinct (map (\<lambda>r. (tx_ticker r, tx_date r)) (sorted_frame parse yf_close portfolio))"
  by (simp only: sorted_frame_def distinct_map_sort_key DataFrame_keys make_records_keys
      distinct_ledger_keys)



lemma format_transactions_cases:
  assumes "format_transactions parse yf_close portfolio = Inr df"
  obtains qd pd where "make_records parse yf_close portfolio \<noteq> []"
    and "column_dtype (map raw_quantity_flow (make_records parse yf_close portfolio)) = Some qd"
    and "column_dtype (map raw_price (make_records parse yf_close portfolio)) = Some pd"
    and "df = add_columns qd pd (DataFrame (make_records parse yf_close portfolio))"
  using assms
  by (auto simp: format_transactions_def Let_def split: if_splits option.splits)

lemma add_columns_nth:
  fixes frame :: "frame_row list" and qd pd :: dtype
  defines "df0 \<equiv> sort_key (\<lambda>r. (tx_ticker r, tx_date r)) frame"
  defines "df \<equiv> add_columns qd pd frame"
  shows "length df = length df0"
    and "i < length df0 \<Longrightarrow> tx_ticker (df ! i) = tx_ticker (df0 ! i)"
    and "i < length df0 \<Longrightarrow> tx_date (df ! i) = tx_date (df0 ! i)"
    and "i < length df0 \<Longrightarrow> tx_quantity_flow (df ! i) = tx_quantity_flow (df0 ! i)"
    and "i < length df0 \<Longrightarrow> tx_price (df ! i) =
           (if isna (tx_price (df0 ! i)) then tx_buy_price_yahoo (df0 ! i) else tx_price (df0 ! i))"
    and "i < length df0 \<Longrightarrow> tx_quantity_stock (df ! i) =
           groupby_cumsum qd (map (\<lambda>r. (tx_ticker r, tx_quantity_flow r)) df0) ! i"
proof -
  define fd where "fd = product_dtype qd pd"
  define df1 where "df1 = map (\<lambda>r. r\<lparr>tx_price :=
                     if isna (tx_price r) then tx_buy_price_yahoo r else tx_price r\<rparr>) df0"
  define df2 where "df2 = map2 (\<lambda>r v. r\<lparr>tx_quantity_stock := v\<rparr>) df1
                    (groupby_cumsum qd (map (\<lambda>r. (tx_ticker r, tx_quantity_flow r)) df1))"
  define df3 where "df3 = map (\<lambda>r. r\<lparr>tx_spending_flow :=
                     col_mul fd (tx_quantity_flow r) (tx_price r)\<rparr>) df2"
  define df4 where "df4 = map2 (\<lambda>r v. r\<lparr>tx_spending_stock := v\<rparr>) df3
                    (groupby_cumsum fd (map (\<lambda>r. (tx_ticker r, tx_spending_flow r)) df3))"
  define df5 where "df5 = map (\<lambda>r. r\<lparr>tx_invested_cash_flow :=
                     col_mul fd
                       (where_cell (fpos (tx_quantity_flow r)) (Fin 0) (tx_quantity_flow r))
                       (tx_price r)\<rparr>) df4"
  define df6 where "df6 = map2 (\<lambda>r v. r\<lparr>tx_invested_cash_stock := v\<rparr>) df5
                    (groupby_cumsum fd (map (\<lambda>r. (tx_ticker r, tx_invested_cash_flow r)) df5))"
  have df: "df = map txrow.truncate df6"
    unfolding df_def add_columns_def Let_def df6_def df5_def df4_def df3_def df2_def
      df1_def df0_def fd_def
    by (rule refl)
  have len: "length df1 = length df0" "length df2 = length df0" "length df3 = length df0"
    "length df4 = length df0" "length df5 = length df0" "length df6 = length df0"
    by (simp_all add: df1_def df2_def df3_def df4_def df5_def df6_def)
  show "length df = length df0"
    by (simp add: df len)
  have col: "map (\<lambda>r. (tx_ticker r, tx_quantity_flow r)) df1 =
      map (\<lambda>r. (tx_ticker r, tx_quantity_flow r)) df0"
    by (simp add: df1_def)
  assume i: "i < length df0"
  have r1: "df1 ! i = (df0 ! i)\<lparr>tx_price :=
       if isna (tx_price (df0 ! i)) then tx_buy_price_yahoo (df0 ! i) else tx_price (df0 ! i)\<rparr>"
    using i by (simp add: df1_def)
  have r2: "df2 ! i = (df1 ! i)\<lparr>tx_quantity_stock :=
       groupby_cumsum qd (map (\<lambda>r. (tx_ticker r, tx_quantity_flow r)) df0) ! i\<rparr>"
    using i by (simp add: df2_def len col)
  have r3: "df3 ! i = (df2 ! i)\<lparr>tx_spending_flow :=
       col_mul fd (tx_quantity_flow (df2 ! i)) (tx_price (df2 ! i))\<rparr>"
    using i by (simp add: df3_def len)
  have r4: "df4 ! i = (df3 ! i)\<lparr>tx_spending_stock :=
       groupby_cumsum fd (map (\<lambda>r. (tx_ticker r, tx_spending_flow r)) df3) ! i\<rparr>"
    using i by (simp add: df4_def len)
  have r5: "df5 ! i = (df4 ! i)\<lparr>tx_invested_cash_flow :=
       col_mul fd
         (where_cell (fpos (tx_quantity_flow (df4 ! i))) (Fin 0) (tx_quantity_flow (df4 ! i)))
         (tx_price (df4 ! i))\<rparr>"
    using i by (simp add: df5_def len)
  have r6: "df6 ! i = (df5 ! i)\<lparr>tx_invested_cash_stock :=
       groupby_cumsum fd (map (\<lambda>r. (tx_ticker r, tx_invested_cash_flow r)) df5) ! i\<rparr>"
    using i by (simp add: df6_def len)
  have r: "df ! i = txrow.truncate (df6 ! i)"
    using i by (simp add: df len)
  note full = r r6 r5 r4 r3 r2 r1
  show "tx_ticker (df ! i) = tx_ticker (df0 ! i)"
    by (simp add: full txrow.truncate_def)
  show "tx_date (df ! i) = tx_date (df0 ! i)"
    by (simp add: full txrow.truncate_def)
  show "tx_quantity_flow (df ! i) = tx_quantity_flow (df0 ! i)"
    by (simp add: full txrow.truncate_def)
  show "tx_price (df ! i) =
           (if isna (tx_price (df0 ! i)) then tx_buy_price_yahoo (df0 ! i) else tx_price (df0 ! i))"
    by (simp add: full txrow.truncate_def)
  show "tx_quantity_stock (df ! i) =
           groupby_cumsum qd (map (\<lambda>r. (tx_ticker r, tx_quantity_flow r)) df0) ! i"
    by (simp add: full txrow.truncate_def)
qed

lemma format_transactions_nth:
  assumes "format_transactions parse yf_close portfolio = Inr df"
  defines "df0 \<equiv> sorted_frame parse yf_close portfolio"
  shows "length df = length df0"
    and "i < length df0 \<Longrightarrow> tx_ticker (df ! i) = tx_ticker (df0 ! i)"
    and "i < length df0 \<Longrightarrow> tx_date (df ! i) = tx_date (df0 ! i)"
    and "i < length df0 \<Longrightarrow> tx_quantity_flow (df ! i) = tx_quantity_flow (df0 ! i)"
    and "i < length df0 \<Longrightarrow> tx_price (df ! i) =
           (if isna (tx_price (df0 ! i)) then tx_buy_price_yahoo (df0 ! i) else tx_price (df0 ! i))"
proof -
  from assms(1) obtain qd pd where
    df: "df = add_columns qd pd (DataFrame (make_records parse yf_close portfolio))"
    by (rule format_transactions_cases)
  note nth = add_columns_nth [where qd = qd and pd = pd
      and frame = "DataFrame (make_records parse yf_close portfolio)",
      folded sorted_frame_def df df0_def]
  show "length df = length df0"
    by (rule nth(1))
  assume i: "i < length df0"
  show "tx_ticker (df ! i) = tx_ticker (df0 ! i)"
    by (rule nth(2) [OF i])
  show "tx_date (df ! i) = tx_date (df0 ! i)"
    by (rule nth(3) [OF i])
  show "tx_quantity_flow (df ! i) = tx_quantity_flow (df0 ! i)"
    by (rule nth(4) [OF i])
  show "tx_price (df ! i) =
           (if isna (tx_price (df0 ! i)) then tx_buy_price_yahoo (df0 ! i) else tx_price (df0 ! i))"
    by (rule nth(5) [OF i])
qed

lemma format_transactions_quantity_stock_nth:
  assumes "format_transactions parse yf_close portfolio = Inr df"
  obtains qd where "\<And>i. i < length df \<Longrightarrow> tx_quantity_stock (df ! i) =
           groupby_cumsum qd
             (map (\<lambda>r. (tx_ticker r, tx_quantity_flow r)) (sorted_frame parse yf_close portfolio)) ! i"
proof -
  from assms(1) obtain qd pd where
    df: "df = add_columns qd pd (DataFrame (make_records parse yf_close portfolio))"
    by (rule format_transactions_cases)
  note nth = add_columns_nth [where qd = qd and pd = pd
      and frame = "DataFrame (make_records parse yf_close portfolio)",
      folded sorted_frame_def df]
  show thesis
    by (rule that [of qd]) (simp add: nth(1) nth(6))
qed

lemma format_transactions_keys:
  assumes "format_transactions parse yf_close portfolio = Inr df"
  shows "map (\<lambda>r. (tx_ticker r, tx_date r)) df =
         map (\<lambda>r. (tx_ticker r, tx_date r)) (sorted_frame parse yf_close portfolio)"
  by (rule nth_equalityI) (simp_all add: format_transactions_nth [OF assms])

lemma format_transactions_distinct:
  assumes "wf_ledger portfolio" and "format_transactions parse yf_close portfolio = Inr df"
  shows "distinct (map (\<lambda>r. (tx_ticker r, tx_date r)) df)"
  by (simp only: format_transactions_keys [OF assms(2)] sorted_frame_distinct [OF assms(1)])

lemma column_dtype_some:
  "c \<in> set cells \<Longrightarrow> c \<noteq> None \<Longrightarrow> \<exists>dt. column_dtype cells = Some dt"
  by (auto simp: column_dtype_def list_all_iff)

lemma format_transactions_total:
  assumes "r1 \<in> set (make_records parse yf_close portfolio)" and "raw_quantity_flow r1 \<noteq> None"
    and "r2 \<in> set (make_records parse yf_close portfolio)" and "raw_price r2 \<noteq> None"
  shows "\<exists>df. format_transactions parse yf_close portfolio = Inr df"
proof -
  from assms(1) have ne: "make_records parse yf_close portfolio \<noteq> []"
    by auto
  from assms(1,2)
  obtain qd where "column_dtype (map raw_quantity_flow (make_records parse yf_close portfolio)) =
      Some qd"
    using column_dtype_some [of "raw_quantity_flow r1"] by force
  moreover from assms(3,4)
  obtain pd where "column_dtype (map raw_price (make_records parse yf_close portfolio)) =
      Some pd"
    using column_dtype_some [of "raw_price r2"] by force
  ultimately show ?thesis
    using ne by (simp add: format_transactions_def Let_def)
qed

lemma make_records_member:
  assumes "(t, txs) \<in> set portfolio" and "(d, details) \<in> set txs"
  shows "make_record parse yf_close t d details \<in> set (make_records parse yf_close portfolio)"
  using assms by (force simp: make_records_def)

lemma groupby_cumsum_from_nan:
  "i < length xs \<Longrightarrow> isna (snd (xs ! i)) \<Longrightarrow> groupby_cumsum_from dt acc xs ! i = NaN"
proof (induction xs arbitrary: acc i)
  case Nil
  then show ?case by simp
next
  case (Cons a xs)
  obtain k x where a: "a = (k, x)"
    by (cases a)
  show ?case
  proof (cases i)
    case 0
    with Cons.prems show ?thesis
      by (simp add: a)
  next
    case (Suc j)
    with Cons.prems have "groupby_cumsum_from dt acc' xs ! j = NaN" for acc'
      by (intro Cons.IH) auto
    then show ?thesis
      by (simp add: a Suc)
  qed
qed

lemma format_row_of_entry:
  assumes "format_transactions parse yf_close portfolio = Inr df"
    and "(t, txs) \<in> set portfolio" and "(d, details) \<in> set txs"
  shows "\<exists>r\<in>set df. tx_ticker r = t \<and> tx_date r = d \<and>
           tx_quantity_flow r = none_to_nan (first_QTE details) \<and>
           tx_price r = (if isna (none_to_nan (first_PRICE parse details))
                         then market_price yf_close t d
                         else none_to_nan (first_PRICE parse details)) \<and>
           (isna (tx_quantity_flow r) \<longrightarrow> isna (tx_quantity_stock r))"
proof -
  let ?df0 = "sorted_frame parse yf_close portfolio"
  let ?rec = "make_record parse yf_close t d details"
  define R where "R = \<lparr>tx_date = d, tx_ticker = t,
                tx_quantity_flow = none_to_nan (first_QTE details),
                tx_price = none_to_nan (first_PRICE parse details),
                tx_quantity_stock = NaN, tx_spending_flow = NaN, tx_spending_stock = NaN,
                tx_invested_cash_flow = NaN, tx_invested_cash_stock = NaN,
                tx_buy_price_yahoo = market_price yf_close t d\<rparr>"
  have "?rec \<in> set (make_records parse yf_close portfolio)"
    using assms(2,3) by (rule make_records_member)
  then have "R \<in> set (DataFrame (make_records parse yf_close portfolio))"
    by (force simp: DataFrame_def R_def make_record_fields)
  then have "R \<in> set ?df0"
    by (simp add: sorted_frame_def)
  then obtain i where i: "i < length ?df0" and R: "?df0 ! i = R"
    by (auto simp: in_set_conv_nth)
  note nth = format_transactions_nth [OF assms(1)]
  have mem: "df ! i \<in> set df"
    using i by (simp add: nth(1))
  from format_transactions_quantity_stock_nth [OF assms(1)]
  obtain qd where qsn: "\<And>i. i < length df \<Longrightarrow> tx_quantity_stock (df ! i) =
      groupby_cumsum qd (map (\<lambda>r. (tx_ticker r, tx_quantity_flow r)) ?df0) ! i"
    by blast
  have qs: "isna (tx_quantity_stock (df ! i))" if "isna (tx_quantity_flow (df ! i))"
  proof -
    from that i have "isna (snd (map (\<lambda>r. (tx_ticker r, tx_quantity_flow r)) ?df0 ! i))"
      by (simp add: nth(4))
    with i have "groupby_cumsum qd (map (\<lambda>r. (tx_ticker r, tx_quantity_flow r)) ?df0) ! i = NaN"
      unfolding groupby_cumsum_def by (intro groupby_cumsum_from_nan) simp_all
    with i show ?thesis
      by (simp add: qsn nth(1) isna_def)
  qed
  have "tx_ticker (df ! i) = t \<and> tx_date (df ! i) = d \<and>
           tx_quantity_flow (df ! i) = none_to_nan (first_QTE details) \<and>
           tx_price (df ! i) = (if isna (none_to_nan (first_PRICE parse details))
                         then market_price yf_close t d
                         else none_to_nan (first_PRICE parse details))"
    using i by (simp add: nth R) (simp add: R_def)
  with mem qs show ?thesis
    by blast
qed

lemma format_row_unique:
  assumes "wf_ledger portfolio" and "format_transactions parse yf_close portfolio = Inr df"
    and "r \<in> set df" and "r' \<in> set df"
    and "tx_ticker r = tx_ticker r'" and "tx_date r = tx_date r'"
  shows "r = r'"
proof -
  from format_transactions_distinct [OF assms(1,2)]
  have "inj_on (\<lambda>r. (tx_ticker r, tx_date r)) (set df)"
    by (simp add: distinct_map)
  with assms(3-6) show ?thesis
    by (auto dest: inj_onD)
qed

lemma find_first:
  "(\<And>i. i \<in> set pre \<Longrightarrow> \<not> P i) \<Longrightarrow> P item \<Longrightarrow> find P (pre @ item # post) = Some item"
  by (induction pre) auto

lemma first_QTE_first:
  assumes "\<And>i. i \<in> set pre \<Longrightarrow> QTE i = None" and "QTE item = Some q"
  shows "first_QTE (pre @ item # post) = Some q"
proof -
  have "find (\<lambda>item. QTE item \<noteq> None) (pre @ item # post) = Some item"
    by (rule find_first) (simp_all add: assms)
  then show ?thesis
    by (simp add: first_QTE_def assms(2))
qed

lemma first_QTE_none: "(\<And>i. i \<in> set details \<Longrightarrow> QTE i = None) \<Longrightarrow> first_QTE details = None"
  by (auto simp: first_QTE_def split: option.splits dest: find_Some_set)


lemma first_PRICE_none:
  "(\<And>i. i \<in> set details \<Longrightarrow> PRICE i = None) \<Longrightarrow> first_PRICE parse details = None"
  by (auto simp: first_PRICE_def split: option.splits dest: find_Some_set)


lemma first_QTE_some: "i \<in> set details \<Longrightarrow> QTE i \<noteq> None \<Longrightarrow> first_QTE details \<noteq> None"
  by (auto simp: first_QTE_def find_None_iff split: option.splits dest: find_Some_set)

lemma first_PRICE_some:
  "i \<in> set details \<Longrightarrow> PRICE i \<noteq> None \<Longrightarrow> first_PRICE parse details \<noteq> None"
  by (auto simp: first_PRICE_def find_None_iff split: option.splits dest: find_Some_set)

lemma noqte_run: "format_transactions no_parse no_close noqte_ledger = Inr noqte_df"
  by code_simp

lemma twice_run: "format_transactions no_parse no_close twice_ledger = Inr twice_df"
  by code_simp
















lemma ahead_fetch: "fetch_hist_data weekend_prices 18264 demo_df [(''X'', ())] = Inr ahead_out"
  by code_simp

lemma old_fetch: "fetch_hist_data old_prices 18262 old_df old_ledger = Inr old_out"
  by code_simp


lemma old_format: "format_transactions no_parse no_close old_ledger = Inr old_df"
  by code_simp


lemma fillna_available: "\<not> isna (fillna (Fin 0) x)"
  by (simp add: fillna_def isna_def)

lemma out_quantity_stock:
  assumes "fetch_hist_data yf_download today df portfolio = Inr out" and "r \<in> set out"
    and "on_grid df today (ticker r) (date r)"
  shows "quantity_stock r = fillna (Fin 0) (ffilled df tx_quantity_stock (ticker r) (date r))"
proof -
  from assms(1,2) obtain h m0 where r: "r = mask_row (compute_metrics m0)"
    and g: "on_grid df today (ticker m0) (date m0) \<Longrightarrow>
           quantity_stock m0 = full_quantity_stock (grid_row df (ticker m0) (date m0)) \<and>
           spending_stock m0 = full_spending_stock (grid_row df (ticker m0) (date m0)) \<and>
           invested_cash_stock m0 = full_invested_cash_stock (grid_row df (ticker m0) (date m0))"
    by (rule fetch_row_obtain) blast
  have key: "ticker r = ticker m0" "date r = date m0" "quantity_stock r = quantity_stock m0"
    by (simp_all add: r mask_metrics_frame)
  with assms(3) have "on_grid df today (ticker m0) (date m0)"
    by simp
  from g [OF this] show ?thesis
    by (simp add: key grid_row_def)
qed













lemma fetch_hist_data_distinct:
  assumes "fetch_hist_data yf_download today df portfolio = Inr out"
  shows "distinct (map (\<lambda>r. (tx_ticker r, tx_date r)) df)"
  using assms by (simp add: fetch_hist_data_def Let_def split: if_splits)

subsection \<open>Columns with no number\<close>

text \<open>
  A ledger with at least one entry in which no entry has a quantity record, or in which
  no entry declares a price, has an \<^verbatim>\<open>object\<close> column: \<^verbatim>\<open>format_transactions\<close> raises
  a TypeError at line 51 or at line 53 and returns no table.
\<close>

lemma make_records_cases:
  assumes "r \<in> set (make_records parse yf_close portfolio)"
  obtains t txs d details where "(t, txs) \<in> set portfolio" and "(d, details) \<in> set txs"
    and "r = make_record parse yf_close t d details"
  using assms by (auto simp: make_records_def)

lemma column_dtype_none: "(\<And>c. c \<in> set cells \<Longrightarrow> c = None) \<Longrightarrow> column_dtype cells = None"
  by (simp add: column_dtype_def list_all_iff)

lemma no_quantity_raises:
  assumes "(t, txs) \<in> set portfolio" and "(d, details) \<in> set txs"
    and "\<And>t txs d details i. (t, txs) \<in> set portfolio \<Longrightarrow> (d, details) \<in> set txs \<Longrightarrow>
           i \<in> set details \<Longrightarrow> QTE i = None"
  shows "format_transactions parse yf_close portfolio = Inl TypeError"
proof -
  have ne: "make_records parse yf_close portfolio \<noteq> []"
    using make_records_member [OF assms(1,2), of parse yf_close] by auto
  have "column_dtype (map raw_quantity_flow (make_records parse yf_close portfolio)) = None"
  proof (rule column_dtype_none)
    fix c assume "c \<in> set (map raw_quantity_flow (make_records parse yf_close portfolio))"
    then obtain r where r: "r \<in> set (make_records parse yf_close portfolio)"
      and c: "c = raw_quantity_flow r"
      by auto
    from r obtain t txs d details where e: "(t, txs) \<in> set portfolio" "(d, details) \<in> set txs"
      and r': "r = make_record parse yf_close t d details"
      by (rule make_records_cases)
    have "first_QTE details = None"
      by (rule first_QTE_none) (rule assms(3) [OF e])
    then show "c = None"
      by (simp add: c r' make_record_fields)
  qed
  with ne show ?thesis
    by (simp add: format_transactions_def Let_def)
qed

lemma no_price_raises:
  assumes "(t, txs) \<in> set portfolio" and "(d, details) \<in> set txs"
    and "\<And>t txs d details i. (t, txs) \<in> set portfolio \<Longrightarrow> (d, details) \<in> set txs \<Longrightarrow>
           i \<in> set details \<Longrightarrow> PRICE i = None"
  shows "format_transactions parse yf_close portfolio = Inl TypeError"
proof -
  have ne: "make_records parse yf_close portfolio \<noteq> []"
    using make_records_member [OF assms(1,2), of parse yf_close] by auto
  have "column_dtype (map raw_price (make_records parse yf_close portfolio)) = None"
  proof (rule column_dtype_none)
    fix c assume "c \<in> set (map raw_price (make_records parse yf_close portfolio))"
    then obtain r where r: "r \<in> set (make_records parse yf_close portfolio)"
      and c: "c = raw_price r"
      by auto
    from r obtain t txs d details where e: "(t, txs) \<in> set portfolio" "(d, details) \<in> set txs"
      and r': "r = make_record parse yf_close t d details"
      by (rule make_records_cases)
    have "first_PRICE parse details = None"
      by (rule first_PRICE_none) (rule assms(3) [OF e])
    then show "c = None"
      by (simp add: c r' make_record_fields)
  qed
  with ne show ?thesis
    by (simp add: format_transactions_def Let_def split: option.splits)
qed

lemma no_price_run:
  "format_transactions no_parse friday_close
     [(''X'', [(18264, [\<lparr>QTE = Some (YInt 1), PRICE = None\<rparr>])])] = Inl TypeError"
  by code_simp

subsection \<open>C1: grid completeness\<close>

text \<open>
  Claim C1 says that the table \<^verbatim>\<open>fetch_hist_data\<close> returns has exactly one row for
  every tracked ticker and every calendar day from \<open>start_date\<close> to today, whether or
  not a close price exists for the day. The dense grid is built (lines 82 to 89), but
  the result is the left join of the price table with it (lines 100 to 103): a day
  the price table has no row for has no row in the result. With the price table of
  a real week, the Saturday 18265 is on the grid and not in the result, which has 3
  rows where the grid has 6 pairs.
\<close>

theorem grid_completeness_counterexample:
  "fetch_hist_data weekend_prices 18267 demo_df [(''X'', ())] = Inr weekend_out \<and>
   (''X'', 18265) \<in> set (multi_index demo_df 18267) \<and>
   (''X'', 18265) \<notin> set (zip (map ticker weekend_out) (map date weekend_out)) \<and>
   length weekend_out = 3 \<and> length (multi_index demo_df 18267) = 6"
  by code_simp

text \<open>
  Claim C1 as amended. The expanded table \<^verbatim>\<open>full_df\<close> has exactly one row for every
  ticker of \<^verbatim>\<open>df\<close> and every calendar day from \<open>start_date\<close> to today, in grid
  order. The result has exactly one row for every row of the price table, in the same
  order and with its ticker, date and close: a pair of the grid is in the result as
  often as the price table lists it.
\<close>

theorem output_rows_follow_price_table:
  assumes "fetch_hist_data yf_download today df portfolio = Inr out"
  shows "map (\<lambda>f. (full_ticker f, full_date f)) (full_df df today) =
           List.product (unique (map tx_ticker df)) [start_date..today] \<and>
         distinct (map (\<lambda>f. (full_ticker f, full_date f)) (full_df df today)) \<and>
         map (\<lambda>r. (ticker r, date r, close r)) out =
           map (\<lambda>h. (hist_ticker h, hist_date h, hist_close h))
             (yf_download (map fst portfolio) start_date)"
proof -
  have keys: "map (\<lambda>f. (full_ticker f, full_date f)) (full_df df today) =
           List.product (unique (map tx_ticker df)) [start_date..today]"
    by (simp add: full_df_closed multi_index_def all_dates_def comp_def case_prod_unfold)
  have "distinct (List.product (unique (map tx_ticker df)) [start_date..today])"
    by (simp add: distinct_product distinct_unique)
  moreover have "map (\<lambda>r. (ticker r, date r, close r)) out =
      map (\<lambda>r. (ticker r, date r, close r))
        (merge_left (yf_download (map fst portfolio) start_date) (full_df df today))"
    by (simp add: fetch_hist_data_rows [OF assms] mask_metrics_frame)
  ultimately show ?thesis
    by (simp add: keys merge_left_keys)
qed

text \<open>The amended claim on the real week: six grid pairs, three result rows.\<close>

theorem output_rows_follow_price_table_witness:
  "fetch_hist_data weekend_prices 18267 demo_df [(''X'', ())] = Inr weekend_out \<and>
   map (\<lambda>f. (full_ticker f, full_date f)) (full_df demo_df 18267) =
     [(''X'', 18262), (''X'', 18263), (''X'', 18264), (''X'', 18265), (''X'', 18266),
      (''X'', 18267)] \<and>
   map (\<lambda>r. (ticker r, date r, close r)) weekend_out =
     [(''X'', 18263, Fin 5), (''X'', 18264, Fin 6), (''X'', 18267, Fin 7)]"
proof -
  have run: "fetch_hist_data weekend_prices 18267 demo_df [(''X'', ())] = Inr weekend_out"
    by code_simp
  have grid: "List.product (unique (map tx_ticker demo_df)) [start_date..18267] =
     [(''X'', 18262), (''X'', 18263), (''X'', 18264), (''X'', 18265), (''X'', 18266),
      (''X'', 18267)]"
    by code_simp
  have rows: "map (\<lambda>h. (hist_ticker h, hist_date h, hist_close h))
       (weekend_prices (map fst [(''X'', ())]) start_date) =
     [(''X'', 18263, Fin 5), (''X'', 18264, Fin 6), (''X'', 18267, Fin 7)]"
    by (simp add: weekend_prices_def)
  from output_rows_follow_price_table [OF run] run show ?thesis
    by (simp only: grid rows)
qed

subsection \<open>C2: the masking law\<close>

text \<open>
  Claim C2. In every row of the table \<^verbatim>\<open>fetch_hist_data\<close> returns, a close price that is
  unavailable (NaN) makes \<^verbatim>\<open>spending_stock\<close>, \<^verbatim>\<open>invested_cash_stock\<close>, \<^verbatim>\<open>valuation\<close>,
  \<^verbatim>\<open>balance\<close> and \<^verbatim>\<open>profit_rate\<close> unavailable too: none of them keeps a forward-filled
  or a zero value.
\<close>

theorem masking_law:
  assumes "fetch_hist_data yf_download today df portfolio = Inr out"
    and "r \<in> set out"
    and "isna (close r)"
  shows "isna (spending_stock r) \<and> isna (invested_cash_stock r) \<and> isna (valuation r) \<and>
         isna (balance r) \<and> isna (profit_rate r)"
proof -
  from fetch_hist_data_rows [OF assms(1)] assms(2)
  obtain m where r: "r = mask_row (compute_metrics m)"
    by auto
  have "close r = close m"
    by (simp add: r mask_row_def compute_metrics_def)
  with assms(3) have "close m = NaN"
    by (simp add: isna_def)
  then show ?thesis
    by (simp add: r mask_row_def compute_metrics_def isna_def where_cell_def
        fmul_NaN_right fsub_NaN_left)
qed

text \<open>
  The law at the third row of the worked run: the close of day 18264 is missing, and
  the forward-filled spending of 50 is masked.
\<close>

theorem masking_law_witness:
  "fetch_hist_data demo_prices 18264 demo_df [(''X'', ())] = Inr demo_out \<and>
   demo_out ! 2 \<in> set demo_out \<and> isna (close (demo_out ! 2)) \<and>
   isna (spending_stock (demo_out ! 2)) \<and> isna (invested_cash_stock (demo_out ! 2)) \<and>
   isna (valuation (demo_out ! 2)) \<and> isna (balance (demo_out ! 2)) \<and>
   isna (profit_rate (demo_out ! 2))"
proof -
  have h2: "demo_out ! 2 \<in> set demo_out"
    by (simp add: demo_out_def)
  have h3: "isna (close (demo_out ! 2))"
    by (simp add: demo_out_def isna_def)
  from masking_law [OF demo_run h2 h3] demo_run h2 h3 show ?thesis
    by simp
qed

subsection \<open>C3: an entry with no quantity\<close>

text \<open>
  Claim C3 says that a ledger entry with no quantity record makes the normalization
  fail with a MissingQuantity error. The code has no such error: \<^verbatim>\<open>next(..., None)\<close>
  at line 28 gives \<^verbatim>\<open>None\<close> for the entry, the record is appended with it, and the
  table has the row with a quantity that is not available. The second entry of the
  ledger below has a price and no quantity; the run returns its row.
\<close>

theorem missing_quantity_counterexample:
  "format_transactions no_parse no_close noqte_ledger = Inr noqte_df \<and>
   map QTE (snd (snd (hd noqte_ledger) ! 1)) = [None] \<and>
   tx_date (noqte_df ! 1) = fst (snd (hd noqte_ledger) ! 1) \<and>
   tx_quantity_flow (noqte_df ! 1) = NaN"
  by code_simp

text \<open>
  Claim C3 as amended. In a ledger where some entry has a quantity record and some
  entry declares a price, an entry with no quantity record does not stop the
  normalization: the table is returned, it has the row of the entry, and in that row
  \<^verbatim>\<open>quantity_flow\<close> and \<^verbatim>\<open>quantity_stock\<close> are unavailable.
\<close>

theorem missing_quantity_propagates:
  assumes "wf_ledger portfolio"
    and "(t, txs) \<in> set portfolio" and "(d, details) \<in> set txs"
    and "\<forall>i\<in>set details. QTE i = None"
    and "(t1, txs1) \<in> set portfolio" and "(d1, details1) \<in> set txs1"
    and "i1 \<in> set details1" and "QTE i1 \<noteq> None"
    and "(t2, txs2) \<in> set portfolio" and "(d2, details2) \<in> set txs2"
    and "i2 \<in> set details2" and "PRICE i2 \<noteq> None"
  shows "\<exists>df. format_transactions parse yf_close portfolio = Inr df \<and>
           (\<exists>r\<in>set df. tx_ticker r = t \<and> tx_date r = d) \<and>
           (\<forall>r\<in>set df. tx_ticker r = t \<and> tx_date r = d \<longrightarrow>
              isna (tx_quantity_flow r) \<and> isna (tx_quantity_stock r))"
proof -
  have q: "raw_quantity_flow (make_record parse yf_close t1 d1 details1) \<noteq> None"
    using first_QTE_some [OF assms(7,8)] by (simp add: make_record_fields)
  have p: "raw_price (make_record parse yf_close t2 d2 details2) \<noteq> None"
    using first_PRICE_some [OF assms(11,12)] by (simp add: make_record_fields)
  from format_transactions_total [OF make_records_member [OF assms(5,6)] q
      make_records_member [OF assms(9,10)] p]
  obtain df where df: "format_transactions parse yf_close portfolio = Inr df"
    by blast
  from format_row_of_entry [OF df assms(2,3)]
  obtain r where r: "r \<in> set df" "tx_ticker r = t" "tx_date r = d"
    "tx_quantity_flow r = none_to_nan (first_QTE details)"
    "isna (tx_quantity_flow r) \<longrightarrow> isna (tx_quantity_stock r)"
    by blast
  from assms(4) have "first_QTE details = None"
    by (intro first_QTE_none) simp
  with r have nan: "isna (tx_quantity_flow r) \<and> isna (tx_quantity_stock r)"
    by (simp add: none_to_nan_def isna_def)
  have "r' = r" if "r' \<in> set df" "tx_ticker r' = t" "tx_date r' = d" for r'
    using format_row_unique [OF assms(1) df that(1) r(1)] that r by simp
  with nan r df show ?thesis
    by blast
qed

text \<open>
  The amended claim on the ledger of the counterexample: the entry of day 18263 has
  the quantity record and the declared price, the entry of day 18264 has no quantity.
\<close>

theorem missing_quantity_propagates_witness:
  "wf_ledger noqte_ledger \<and>
   (''X'', snd (hd noqte_ledger)) \<in> set noqte_ledger \<and>
   (18264, [\<lparr>QTE = None, PRICE = Some (YNum (YInt 11))\<rparr>]) \<in> set (snd (hd noqte_ledger)) \<and>
   map QTE [\<lparr>QTE = None, PRICE = Some (YNum (YInt 11))\<rparr>] = [None] \<and>
   (18263, [\<lparr>QTE = Some (YInt 5), PRICE = None\<rparr>,
            \<lparr>QTE = None, PRICE = Some (YNum (YInt 10))\<rparr>]) \<in> set (snd (hd noqte_ledger)) \<and>
   format_transactions no_parse no_close noqte_ledger = Inr noqte_df \<and>
   noqte_df ! 1 \<in> set noqte_df \<and>
   tx_ticker (noqte_df ! 1) = ''X'' \<and> tx_date (noqte_df ! 1) = 18264 \<and>
   isna (tx_quantity_flow (noqte_df ! 1)) \<and> isna (tx_quantity_stock (noqte_df ! 1))"
proof -
  let ?e1 = "[\<lparr>QTE = Some (YInt 5), PRICE = None\<rparr>, \<lparr>QTE = None, PRICE = Some (YNum (YInt 10))\<rparr>]"
  let ?e2 = "[\<lparr>QTE = None, PRICE = Some (YNum (YInt 11))\<rparr>]"
  have h1: "wf_ledger noqte_ledger"
    by (simp add: wf_ledger_def noqte_ledger_def)
  have h2: "(''X'', snd (hd noqte_ledger)) \<in> set noqte_ledger"
    by (simp add: noqte_ledger_def)
  have h3: "(18264, ?e2) \<in> set (snd (hd noqte_ledger))"
    by (simp add: noqte_ledger_def)
  have h4: "\<forall>i\<in>set ?e2. QTE i = None"
    by simp
  have h4': "map QTE ?e2 = [None]"
    by simp
  have h5: "(18263, ?e1) \<in> set (snd (hd noqte_ledger))"
    by (simp add: noqte_ledger_def)
  have h6: "\<lparr>QTE = Some (YInt 5), PRICE = None\<rparr> \<in> set ?e1"
    "QTE \<lparr>QTE = Some (YInt 5), PRICE = None\<rparr> \<noteq> None"
    by simp_all
  have h7: "\<lparr>QTE = None, PRICE = Some (YNum (YInt 10))\<rparr> \<in> set ?e1"
    "PRICE \<lparr>QTE = None, PRICE = Some (YNum (YInt 10))\<rparr> \<noteq> None"
    by simp_all
  have row: "noqte_df ! 1 \<in> set noqte_df" "tx_ticker (noqte_df ! 1) = ''X''"
    "tx_date (noqte_df ! 1) = 18264"
    by (simp_all add: noqte_df_def)
  from missing_quantity_propagates [OF h1 h2 h3 h4 h2 h5 h6 h2 h5 h7, of no_parse no_close]
  obtain df where df: "format_transactions no_parse no_close noqte_ledger = Inr df"
    and all: "\<forall>r\<in>set df. tx_ticker r = ''X'' \<and> tx_date r = 18264 \<longrightarrow>
              isna (tx_quantity_flow r) \<and> isna (tx_quantity_stock r)"
    by blast
  from df noqte_run have "df = noqte_df"
    by simp
  with all row have "isna (tx_quantity_flow (noqte_df ! 1)) \<and> isna (tx_quantity_stock (noqte_df ! 1))"
    by blast
  with h1 h2 h3 h4' h5 noqte_run row show ?thesis
    by blast
qed

subsection \<open>C4: several quantity records in one entry\<close>

text \<open>
  Claim C4 says that the quantity records of one ticker and date are summed. Line 28
  takes the first one with \<^verbatim>\<open>next\<close> and never reads the others: two records of 5
  give a \<^verbatim>\<open>quantity_flow\<close> of 5, not 10.
\<close>

theorem summed_quantities_counterexample:
  "format_transactions no_parse no_close twice_ledger = Inr twice_df \<and>
   map QTE (snd (hd (snd (hd twice_ledger)))) = [Some (YInt 5), Some (YInt 5), None] \<and>
   map tx_quantity_flow twice_df = [Fin 5] \<and>
   fadd (Fin 5) (Fin 5) = Fin 10 \<and> Fin 5 \<noteq> Fin 10"
  by code_simp

text \<open>
  Claim C4 as amended. The \<^verbatim>\<open>quantity_flow\<close> of a ticker and date is the first
  quantity record of the attribute list; the records after it are not read.
\<close>

theorem quantity_is_first_record:
  assumes "wf_ledger portfolio"
    and "format_transactions parse yf_close portfolio = Inr df"
    and "(t, txs) \<in> set portfolio" and "(d, pre @ item # post) \<in> set txs"
    and "\<forall>i\<in>set pre. QTE i = None" and "QTE item = Some q"
  shows "(\<exists>r\<in>set df. tx_ticker r = t \<and> tx_date r = d) \<and>
         (\<forall>r\<in>set df. tx_ticker r = t \<and> tx_date r = d \<longrightarrow> tx_quantity_flow r = number_cell q)"
proof -
  from format_row_of_entry [OF assms(2,3,4)]
  obtain r where r: "r \<in> set df" "tx_ticker r = t" "tx_date r = d"
    "tx_quantity_flow r = none_to_nan (first_QTE (pre @ item # post))"
    by blast
  from assms(5,6) have "first_QTE (pre @ item # post) = Some q"
    by (intro first_QTE_first) simp_all
  with r have q: "tx_quantity_flow r = number_cell q"
    by (simp add: none_to_nan_def)
  have "r' = r" if "r' \<in> set df" "tx_ticker r' = t" "tx_date r' = d" for r'
    using format_row_unique [OF assms(1,2) that(1) r(1)] that r by simp
  with q r show ?thesis
    by blast
qed

text \<open>The amended claim on the entry with two records of 5.\<close>

theorem quantity_is_first_record_witness:
  "wf_ledger twice_ledger \<and>
   format_transactions no_parse no_close twice_ledger = Inr twice_df \<and>
   (''X'', snd (hd twice_ledger)) \<in> set twice_ledger \<and>
   (18263, [] @ \<lparr>QTE = Some (YInt 5), PRICE = None\<rparr> #
      [\<lparr>QTE = Some (YInt 5), PRICE = None\<rparr>, \<lparr>QTE = None, PRICE = Some (YNum (YInt 10))\<rparr>])
     \<in> set (snd (hd twice_ledger)) \<and>
   QTE \<lparr>QTE = Some (YInt 5), PRICE = None\<rparr> = Some (YInt 5) \<and>
   hd twice_df \<in> set twice_df \<and> tx_ticker (hd twice_df) = ''X'' \<and>
   tx_date (hd twice_df) = 18263 \<and> tx_quantity_flow (hd twice_df) = Fin 5"
proof -
  have h1: "wf_ledger twice_ledger"
    by (simp add: wf_ledger_def twice_ledger_def)
  have h3: "(''X'', snd (hd twice_ledger)) \<in> set twice_ledger"
    by (simp add: twice_ledger_def)
  have h4: "(18263, [] @ \<lparr>QTE = Some (YInt 5), PRICE = None\<rparr> #
      [\<lparr>QTE = Some (YInt 5), PRICE = None\<rparr>, \<lparr>QTE = None, PRICE = Some (YNum (YInt 10))\<rparr>])
     \<in> set (snd (hd twice_ledger))"
    by (simp add: twice_ledger_def)
  have h5: "\<forall>i\<in>set ([] :: item list). QTE i = None"
    by simp
  have h6: "QTE \<lparr>QTE = Some (YInt 5), PRICE = None\<rparr> = Some (YInt 5)"
    by simp
  have row: "hd twice_df \<in> set twice_df" "tx_ticker (hd twice_df) = ''X''"
    "tx_date (hd twice_df) = 18263"
    by (simp_all add: twice_df_def)
  from quantity_is_first_record [OF h1 twice_run h3 h4 h5 h6] row
  have "tx_quantity_flow (hd twice_df) = number_cell (YInt 5)"
    by blast
  then have "tx_quantity_flow (hd twice_df) = Fin 5"
    by simp
  with h1 twice_run h3 h4 h6 row show ?thesis
    by blast
qed

subsection \<open>C5: the effective price\<close>



subsection \<open>C6: the profit rate and its divisor\<close>

text \<open>
  Claim C6 says that \<^verbatim>\<open>profit_rate\<close> is unavailable on every row whose
  \<^verbatim>\<open>invested_cash_stock\<close> is zero or unavailable, never an infinite value. Line 113
  divides two columns with no guard. For ten shares received at price 0 and a close of
  12, the invested cash is 0, the balance is 120, and the profit rate is infinite.
\<close>

theorem profit_rate_guard_counterexample:
  "run_pipeline no_parse no_close gift_prices 18263 gift_ledger = Inr [gift_row] \<and>
   invested_cash_stock gift_row = Fin 0 \<and> profit_rate gift_row = PInf \<and>
   \<not> isna (profit_rate gift_row)"
  by code_simp

text \<open>
  Claim C6 as amended. On every row of the result, \<^verbatim>\<open>profit_rate\<close> is unavailable
  when \<^verbatim>\<open>invested_cash_stock\<close> is unavailable. When \<^verbatim>\<open>invested_cash_stock\<close> is zero,
  \<^verbatim>\<open>profit_rate\<close> is unavailable only if \<^verbatim>\<open>balance\<close> is zero or unavailable, and
  infinite otherwise.
\<close>

theorem profit_rate_division:
  assumes "fetch_hist_data yf_download today df portfolio = Inr out"
    and "r \<in> set out"
  shows "(isna (invested_cash_stock r) \<longrightarrow> isna (profit_rate r)) \<and>
         (invested_cash_stock r = Fin 0 \<longrightarrow>
            (if isna (balance r) \<or> balance r = Fin 0 then isna (profit_rate r)
             else is_inf (profit_rate r)))"
proof -
  from fetch_hist_data_rows [OF assms(1)] assms(2)
  obtain m where r: "r = mask_row (compute_metrics m)"
    by auto
  show ?thesis
  proof (cases "close m = NaN")
    case True
    then show ?thesis
      by (simp add: r mask_row_def compute_metrics_def isna_def where_cell_def
          fmul_NaN_right fsub_NaN_left)
  next
    case False
    then show ?thesis
      by (simp add: r mask_row_def compute_metrics_def isna_def where_cell_def
          fdiv_NaN_right fdiv_zero is_inf_def)
  qed
qed

text \<open>
  Both parts of the amended claim: the first row of the worked run (no capital yet, so
  no invested cash and no profit rate), and the row of the shares received at price 0.
\<close>

theorem profit_rate_division_witness:
  "fetch_hist_data demo_prices 18264 demo_df [(''X'', ())] = Inr demo_out \<and>
   demo_out ! 0 \<in> set demo_out \<and>
   isna (invested_cash_stock (demo_out ! 0)) \<and> isna (profit_rate (demo_out ! 0)) \<and>
   fetch_hist_data gift_prices 18263 gift_df gift_ledger = Inr [gift_row] \<and>
   gift_row \<in> set [gift_row] \<and>
   invested_cash_stock gift_row = Fin 0 \<and> \<not> isna (balance gift_row) \<and>
   balance gift_row \<noteq> Fin 0 \<and> is_inf (profit_rate gift_row)"
proof -
  have h2: "demo_out ! 0 \<in> set demo_out"
    by (simp add: demo_out_def)
  have h3: "isna (invested_cash_stock (demo_out ! 0))"
    by (simp add: demo_out_def isna_def)
  have g2: "gift_row \<in> set [gift_row]"
    by simp
  have g3: "invested_cash_stock gift_row = Fin 0 \<and> \<not> isna (balance gift_row) \<and>
      balance gift_row \<noteq> Fin 0"
    by (simp add: gift_row_def isna_def)
  from profit_rate_division [OF demo_run h2] profit_rate_division [OF gift_fetch g2]
    demo_run gift_fetch h2 h3 g2 g3
  show ?thesis
    by simp
qed

subsection \<open>C7: the empty ledger\<close>

text \<open>
  Claim C7 says that an empty ledger gives an empty table and no error. The code has no
  branch for it: with no record the DataFrame has no column \<^verbatim>\<open>ticker\<close> to sort by, and
  \<^verbatim>\<open>format_transactions\<close> raises a KeyError, which ends the run before
  \<^verbatim>\<open>fetch_hist_data\<close> is called.
\<close>

theorem empty_ledger_raises:
  "format_transactions parse yf_close [] = Inl (KeyError ''ticker'') \<and>
   run_pipeline parse yf_close yf_download today [] = Inl (KeyError ''ticker'')"
  by (simp add: run_pipeline_def format_transactions_def make_records_def)

subsection \<open>C8: the fill of the expanded series\<close>

text \<open>
  Claim C8 says that on the grid days before the first transaction of a ticker
  \<^verbatim>\<open>quantity_stock\<close> is 0 and the two other stocks are unavailable, and that on and
  after the first transaction the three are forward-filled from the nearest prior
  transaction. The code does not do the second for a transaction older than
  \<open>start_date\<close>: the reindex on the grid (lines 88 and 89) drops its row before the
  forward fill, and nothing is left to fill from. Five shares bought at 10 on
  2019-12-31 have a running quantity of 5 and a running spending of 50 in the
  transaction table, and the expanded series of the first two days of 2020, both after
  the purchase, has a quantity of 0 and no spending.
\<close>

theorem pre_start_transaction_dropped:
  "format_transactions no_parse no_close old_ledger = Inr old_df \<and>
   map tx_date old_df = [18261] \<and> 18261 < start_date \<and>
   tx_quantity_stock (old_df ! 0) = Fin 5 \<and> tx_spending_stock (old_df ! 0) = Fin 50 \<and>
   tx_invested_cash_stock (old_df ! 0) = Fin 50 \<and>
   full_df old_df 18263 =
     [\<lparr>full_ticker = ''X'', full_date = 18262, full_quantity_stock = Fin 0,
       full_spending_stock = NaN, full_invested_cash_stock = NaN\<rparr>,
      \<lparr>full_ticker = ''X'', full_date = 18263, full_quantity_stock = Fin 0,
       full_spending_stock = NaN, full_invested_cash_stock = NaN\<rparr>]"
  by code_simp

subsection \<open>C9: the quantity is a prefix sum\<close>




subsection \<open>C10: the quantity of a result row\<close>

text \<open>
  Claim C10 says that every row of the result whose ticker has a transaction has a
  \<^verbatim>\<open>quantity_stock\<close> that is a number, zero before the first transaction of the ticker
  and the forward-filled running quantity afterwards. Two runs show that it is not
  always so. The result has a row for every row of the price table, and the left join
  of lines 100 to 103 finds no row of the expanded series for a day that is not on
  the grid: with the clock on day 18264, the row of the price of day 18267 has no
  quantity. And the row of 2020-01-01, the day after five shares were bought, has the
  quantity 0 where the running quantity is 5.
\<close>

theorem quantity_stock_available_counterexample:
  "fetch_hist_data weekend_prices 18264 demo_df [(''X'', ())] = Inr ahead_out \<and>
   map tx_ticker demo_df = [''X''] \<and>
   ticker (ahead_out ! 2) = ''X'' \<and> date (ahead_out ! 2) = 18267 \<and>
   close (ahead_out ! 2) = Fin 7 \<and> isna (quantity_stock (ahead_out ! 2)) \<and>
   format_transactions no_parse no_close old_ledger = Inr old_df \<and>
   fetch_hist_data old_prices 18262 old_df old_ledger = Inr old_out \<and>
   map tx_date old_df = [18261] \<and> map tx_quantity_stock old_df = [Fin 5] \<and>
   ticker (old_out ! 0) = ''X'' \<and> date (old_out ! 0) = 18262 \<and>
   quantity_stock (old_out ! 0) = Fin 0"
proof -
  have a: "map tx_ticker demo_df = [''X'']"
    by (simp add: demo_df_def)
  have b: "ticker (ahead_out ! 2) = ''X''" "date (ahead_out ! 2) = 18267"
    "close (ahead_out ! 2) = Fin 7" "isna (quantity_stock (ahead_out ! 2))"
    by (simp_all add: ahead_out_def isna_def)
  have c: "map tx_date old_df = [18261]" "map tx_quantity_stock old_df = [Fin 5]"
    by (simp_all add: old_df_def)
  have d: "ticker (old_out ! 0) = ''X''" "date (old_out ! 0) = 18262"
    "quantity_stock (old_out ! 0) = Fin 0"
    by (simp_all add: old_out_def)
  show ?thesis
    by (intro conjI ahead_fetch a b old_format old_fetch c d)
qed

text \<open>
  Claim C10 as amended. A row of the result whose ticker has a transaction and whose
  day is a day of the grid, from \<open>start_date\<close> to today, has a \<^verbatim>\<open>quantity_stock\<close> that
  is a number, also where the close price is missing. It is zero when every
  transaction of the ticker is later than the day of the row. It is the running
  quantity of the nearest prior transaction of the ticker, when that transaction is
  dated on the grid and its running quantity is available. The masking step changes
  \<^verbatim>\<open>spending_stock\<close> and \<^verbatim>\<open>invested_cash_stock\<close> only, and leaves \<^verbatim>\<open>quantity_stock\<close>
  and \<^verbatim>\<open>close\<close> as they are.
\<close>

theorem quantity_stock_available_on_grid:
  assumes "fetch_hist_data yf_download today df portfolio = Inr out"
    and "r \<in> set out"
    and "ticker r \<in> set (map tx_ticker df)"
    and "start_date \<le> date r" and "date r \<le> today"
  shows "\<not> isna (quantity_stock r) \<and>
         ((\<forall>x\<in>set df. tx_ticker x = ticker r \<longrightarrow> date r < tx_date x) \<longrightarrow>
            quantity_stock r = Fin 0) \<and>
         (\<forall>x\<in>set df.
            tx_ticker x = ticker r \<and> start_date \<le> tx_date x \<and> tx_date x \<le> date r \<and>
            \<not> isna (tx_quantity_stock x) \<and>
            (\<forall>y\<in>set df. tx_ticker y = ticker r \<longrightarrow>
               tx_date y \<le> tx_date x \<or> date r < tx_date y) \<longrightarrow>
            quantity_stock r = tx_quantity_stock x) \<and>
         mask_row m = m\<lparr>spending_stock := spending_stock (mask_row m),
                         invested_cash_stock := invested_cash_stock (mask_row m)\<rparr> \<and>
         quantity_stock (mask_row m) = quantity_stock m \<and> close (mask_row m) = close m"
proof -
  from assms(3-5) have grid: "on_grid df today (ticker r) (date r)"
    by (simp add: on_grid_def)
  note q = out_quantity_stock [OF assms(1,2) grid]
  have avail: "\<not> isna (quantity_stock r)"
    by (simp only: q fillna_available not_False_eq_True)
  have before: "quantity_stock r = Fin 0"
    if "\<forall>x\<in>set df. tx_ticker x = ticker r \<longrightarrow> date r < tx_date x"
  proof -
    have "ffilled df tx_quantity_stock (ticker r) (date r) = NaN"
      by (rule ffilled_none) (use that in auto)
    with q show ?thesis
      by (simp add: fillna_def isna_def)
  qed
  have after: "quantity_stock r = tx_quantity_stock x"
    if x: "x \<in> set df"
      and h: "tx_ticker x = ticker r \<and> start_date \<le> tx_date x \<and> tx_date x \<le> date r \<and>
            \<not> isna (tx_quantity_stock x) \<and>
            (\<forall>y\<in>set df. tx_ticker y = ticker r \<longrightarrow>
               tx_date y \<le> tx_date x \<or> date r < tx_date y)" for x
  proof -
    have "ffilled df tx_quantity_stock (ticker r) (date r) =
        (if isna (tx_quantity_stock x)
         then ffilled df tx_quantity_stock (ticker r) (tx_date x - 1) else tx_quantity_stock x)"
      using h by (intro ffilled_nearest [OF fetch_hist_data_distinct [OF assms(1)] x]) auto
    with h have "ffilled df tx_quantity_stock (ticker r) (date r) = tx_quantity_stock x"
      by simp
    with h show ?thesis
      by (simp add: q fillna_def)
  qed
  have frame: "mask_row m = m\<lparr>spending_stock := spending_stock (mask_row m),
                         invested_cash_stock := invested_cash_stock (mask_row m)\<rparr>"
    by (simp add: mask_row_def)
  have keep: "quantity_stock (mask_row m) = quantity_stock m \<and> close (mask_row m) = close m"
    by (simp add: mask_row_def)
  from avail before after frame keep show ?thesis
    by blast
qed

text \<open>
  The worked run: the row of day 18262 is before the transaction and has the quantity
  0; the row of day 18264 has no close price and the quantity 10 of the transaction
  of day 18263; the masking step keeps the quantity of the row of day 18263.
\<close>

theorem quantity_stock_available_on_grid_witness:
  "fetch_hist_data demo_prices 18264 demo_df [(''X'', ())] = Inr demo_out \<and>
   map tx_ticker demo_df = [''X''] \<and> map tx_date demo_df = [18263] \<and>
   map tx_quantity_stock demo_df = [Fin 10] \<and> start_date = 18262 \<and>
   map ticker demo_out = [''X'', ''X'', ''X''] \<and>
   map date demo_out = [18262, 18263, 18264] \<and>
   quantity_stock (demo_out ! 0) = Fin 0 \<and>
   isna (close (demo_out ! 2)) \<and> \<not> isna (quantity_stock (demo_out ! 2)) \<and>
   quantity_stock (demo_out ! 2) = Fin 10 \<and>
   quantity_stock (mask_row (demo_out ! 1)) = quantity_stock (demo_out ! 1)"
proof -
  have d: "map tx_ticker demo_df = [''X'']" "map tx_date demo_df = [18263]"
    "map tx_quantity_stock demo_df = [Fin 10]" "start_date = 18262"
    by (simp_all add: demo_df_def start_date_def)
  have o: "map ticker demo_out = [''X'', ''X'', ''X'']"
    "map date demo_out = [18262, 18263, 18264]"
    by (simp_all add: demo_out_def)
  have r0: "demo_out ! 0 \<in> set demo_out" "ticker (demo_out ! 0) \<in> set (map tx_ticker demo_df)"
    "start_date \<le> date (demo_out ! 0)" "date (demo_out ! 0) \<le> 18264"
    by (simp_all add: demo_out_def demo_df_def start_date_def)
  have r2: "demo_out ! 2 \<in> set demo_out" "ticker (demo_out ! 2) \<in> set (map tx_ticker demo_df)"
    "start_date \<le> date (demo_out ! 2)" "date (demo_out ! 2) \<le> 18264"
    by (simp_all add: demo_out_def demo_df_def start_date_def)
  have h6: "isna (close (demo_out ! 2))"
    by (simp add: demo_out_def isna_def)
  note t0 = quantity_stock_available_on_grid [OF demo_run r0, of "demo_out ! 1"]
  note t2 = quantity_stock_available_on_grid [OF demo_run r2, of "demo_out ! 1"]
  have later: "\<forall>x\<in>set demo_df. tx_ticker x = ticker (demo_out ! 0) \<longrightarrow>
      date (demo_out ! 0) < tx_date x"
    by (simp add: demo_df_def demo_out_def)
  from t0 [THEN conjunct2, THEN conjunct1, THEN mp, OF later]
  have c0: "quantity_stock (demo_out ! 0) = Fin 0" .
  from t2 have c1: "\<not> isna (quantity_stock (demo_out ! 2))"
    by (rule conjunct1)
  have x: "hd demo_df \<in> set demo_df"
    by (simp add: demo_df_def)
  have near: "tx_ticker (hd demo_df) = ticker (demo_out ! 2) \<and>
      start_date \<le> tx_date (hd demo_df) \<and> tx_date (hd demo_df) \<le> date (demo_out ! 2) \<and>
      \<not> isna (tx_quantity_stock (hd demo_df)) \<and>
      (\<forall>y\<in>set demo_df. tx_ticker y = ticker (demo_out ! 2) \<longrightarrow>
         tx_date y \<le> tx_date (hd demo_df) \<or> date (demo_out ! 2) < tx_date y)"
    by (simp add: demo_df_def demo_out_def start_date_def isna_def)
  from t2 [THEN conjunct2, THEN conjunct2, THEN conjunct1, THEN bspec, OF x, THEN mp, OF near]
  have "quantity_stock (demo_out ! 2) = tx_quantity_stock (hd demo_df)" .
  then have c2: "quantity_stock (demo_out ! 2) = Fin 10"
    by (simp add: demo_df_def)
  from t2 have c3: "quantity_stock (mask_row (demo_out ! 1)) = quantity_stock (demo_out ! 1)"
    by (elim conjE)
  show ?thesis
    by (intro conjI demo_run d o c0 h6 c1 c2 c3)
qed

end
